theory Spec2Isabelle
  imports Main "HOL-Library.Word" "HOL-Library.Char_ord" "HOL-Library.List_Lexorder"
begin

section \<open>Data model of the object server\<close>

text \<open>
  The replicated object (\<^verbatim>\<open>objectserver/repobj.go\<close>), its engine
  (\<^verbatim>\<open>objectserver/repobjeng.go\<close>) and the erasure-code engine are embedded as
  pure functions. Everything outside the process is explicit: the ring, the HTTP client,
  the file system and the standard-library parsers are fields of an environment record,
  the index database is a value that is passed in and returned, and every call that
  leaves the object (an HTTP request, a replicate call, a database mutation, a
  quarantine) is appended to a trace of events.
\<close>

datatype error =
    NoTimestampInMetadata
  | ParseDateError
  | RingError
  | JustSendDeletions
  | CouldNotStabilizeDelete int int
  | CouldNotRestabilize int int
  | CouldNotStabilize nat
  | OpenError
  | StatError
  | NewRequestError
  | ErrorSyncingObj string
  | BadStatusCode nat string
  | DatabaseError
  | ConflictError
  | ErrorParsingMetadata
  | UnableToParseContentLength string
  | FileSizeMismatch int int
  | ShardSizeMismatch int int int int
  | UnableToOpenDatabase
  | NilDereference

text \<open>
  \<^verbatim>\<open>IndexDBItem\<close>: one row of the index database. Timestamps are \<^verbatim>\<open>int64\<close>
  nanoseconds; the code only compares them, so they are integers here.
\<close>

record IndexDBItem =
  Hash :: string
  Shard :: int
  Timestamp :: int
  Nursery :: bool
  Deletion :: bool
  Metahash :: string
  Metabytes :: string
  Path :: string
  Restabilize :: bool

text \<open>\<^verbatim>\<open>ring.Device\<close>, with the fields the object server reads.\<close>

record Device =
  Id_dev :: int
  Ip :: string
  Port :: int
  Device :: string
  Scheme :: string
  ReplicationIp :: string
  ReplicationPort :: int

text \<open>
  \<^verbatim>\<open>ring.Ring\<close> is an interface implemented outside the object server; its methods
  are the fields of a record. Partitions and the replica count are \<^verbatim>\<open>uint64\<close>.
\<close>

record Ring =
  PartitionForHash :: "string \<Rightarrow> error + 64 word"
  GetNodes :: "64 word \<Rightarrow> Device list"
  ReplicaCount :: "64 word"
  GetJobNodes :: "64 word \<Rightarrow> int \<Rightarrow> Device list \<times> bool"

record PriorityRepJob =
  Partition :: "64 word"
  FromDevice :: Device
  ToDevice :: Device
  Policy :: int

text \<open>
  An HTTP request as the object builds it. \<^verbatim>\<open>MetaHeader\<close> stands for the headers
  \<^verbatim>\<open>"Meta-"+k\<close> set from every entry of the object's metadata; \<^verbatim>\<open>BodyFile\<close> is the
  path of the file streamed as the body.
\<close>

record Request =
  Method :: string
  URL :: string
  Header :: "(string \<times> string) list"
  MetaHeader :: "string \<rightharpoonup> string"
  ContentLength :: int
  BodyFile :: "string option"

record Response =
  StatusCode :: nat
  RespHeader :: "string \<rightharpoonup> string"
  Body :: "string option"

text \<open>
  The collaborators outside the object server. \<^verbatim>\<open>Do\<close> is \<^verbatim>\<open>http.Client.Do\<close>
  (\<open>None\<close> is a transport error), \<^verbatim>\<open>NewRequestOk\<close> says whether \<^verbatim>\<open>http.NewRequest\<close>
  accepts a method and URL, \<^verbatim>\<open>OpenOk\<close> and \<^verbatim>\<open>Stat\<close> are \<^verbatim>\<open>os.Open\<close> and the size
  \<^verbatim>\<open>os.Stat\<close> reports, \<^verbatim>\<open>ParseInt\<close> is \<^verbatim>\<open>strconv.ParseInt(s, 10, 64)\<close>,
  \<^verbatim>\<open>ParseDate\<close> is \<^verbatim>\<open>common.ParseDate\<close> followed by \<^verbatim>\<open>UnixNano\<close>, \<^verbatim>\<open>Unmarshal\<close> is
  \<^verbatim>\<open>json.Unmarshal\<close> into a string map, \<^verbatim>\<open>Marshal\<close> and \<^verbatim>\<open>Digest\<close> produce a row's
  metadata blob and its hash, \<^verbatim>\<open>WholeObjectPath\<close> is the index database's path
  builder, \<^verbatim>\<open>UnmarshalItems\<close> is what \<^verbatim>\<open>json.Unmarshal\<close> leaves in a slice of rows
  (its error is only logged), \<^verbatim>\<open>ObjHash\<close> and \<^verbatim>\<open>ecShardLength\<close> are helpers of the
  object server declared outside the sources, \<^verbatim>\<open>UUID\<close> is \<^verbatim>\<open>common.UUID\<close> at its n-th
  call and \<^verbatim>\<open>rand\<close> is the n-th draw of the random source, reduced by \<^verbatim>\<open>rand.Intn\<close> to
  its bound. A response's \<^verbatim>\<open>Body\<close> is \<open>None\<close> when reading it fails.
\<close>

record Env =
  Do :: "Request \<Rightarrow> Response option"
  NewRequestOk :: "string \<Rightarrow> string \<Rightarrow> bool"
  OpenOk :: "string \<Rightarrow> bool"
  Stat :: "string \<Rightarrow> int option"
  ParseInt :: "string \<Rightarrow> int option"
  ParseDate :: "string \<Rightarrow> int option"
  Urlencode :: "string \<Rightarrow> string"
  Unmarshal :: "string \<Rightarrow> (string \<rightharpoonup> string) option"
  Marshal :: "(string \<rightharpoonup> string) \<Rightarrow> string"
  Digest :: "(string \<rightharpoonup> string) \<Rightarrow> string"
  WholeObjectPath :: "string \<Rightarrow> int \<Rightarrow> int \<Rightarrow> bool \<Rightarrow> string option"
  UnmarshalItems :: "string \<Rightarrow> IndexDBItem list"
  ObjHash :: "(string \<rightharpoonup> string) \<Rightarrow> string \<Rightarrow> string \<Rightarrow> string"
  UUID :: "nat \<Rightarrow> string"
  ecShardLength :: "int \<Rightarrow> int \<Rightarrow> int"
  rand :: "nat \<Rightarrow> nat"

datatype event =
    EvDo Request
  | EvReplicate PriorityRepJob
  | EvRemove string int int bool string
  | EvSetStabilized string int int bool
  | EvCommit string int int string bool
  | EvQuarantine IndexDBItem
  | EvExpireObjects
  | EvListObjectsToStabilize
  | EvUpdateItemsBeingStabilized string "IndexDBItem list"

text \<open>Indexing a Go map of strings: a missing key reads as the empty string.\<close>

definition mapIndex :: "(string \<rightharpoonup> string) \<Rightarrow> string \<Rightarrow> string" where
  "mapIndex m k = (case m k of None \<Rightarrow> [] | Some v \<Rightarrow> v)"

text \<open>\<^verbatim>\<open>%d\<close> and \<^verbatim>\<open>strconv.Itoa\<close>: decimal rendering.\<close>

fun showNat :: "nat \<Rightarrow> string" where
  "showNat n = (if n < 10 then [char_of (48 + n)] else showNat (n div 10) @ [char_of (48 + n mod 10)])"

declare showNat.simps [simp del]

definition showInt :: "int \<Rightarrow> string" where
  "showInt i = (if i < 0 then CHR ''-'' # showNat (nat (- i)) else showNat (nat i))"

section \<open>The index database\<close>

text \<open>
  Modelled from the spec: the index database (\<^verbatim>\<open>IndexDB\<close>, its \<^verbatim>\<open>Commit\<close>,
  \<^verbatim>\<open>Remove\<close> and \<^verbatim>\<open>SetStabilized\<close>) is declared in a file that is not among the
  sources. The table holds one row per key \<open>(hash, shard)\<close>; a database that cannot be
  reached fails every operation and changes nothing.
\<close>

record IndexDB =
  rows :: "(string \<times> int) \<rightharpoonup> IndexDBItem"
  reachable :: bool

text \<open>
  Modelled from the spec: \<^verbatim>\<open>commit\<close> "atomically installs bytes (or none, for delete)
  and metadata; rejects (conflict, no mutation) if the stored timestamp for that key is
  \<open>\<ge>\<close> the incoming one". The installed row is the second argument.
\<close>

definition idb_Commit :: "IndexDB \<Rightarrow> IndexDBItem \<Rightarrow> error option \<times> IndexDB" where
  "idb_Commit db item =
     (if \<not> reachable db then (Some DatabaseError, db)
      else case rows db (Hash item, Shard item) of
             None \<Rightarrow> (None, db\<lparr>rows := (rows db)((Hash item, Shard item) \<mapsto> item)\<rparr>)
           | Some stored \<Rightarrow>
               if Timestamp stored \<ge> Timestamp item then (Some ConflictError, db)
               else (None, db\<lparr>rows := (rows db)((Hash item, Shard item) \<mapsto> item)\<rparr>))"

text \<open>
  Modelled from the spec: the row a commit installs for
  \<^verbatim>\<open>Commit(file, hash, shard, timestamp, method, metadata, nursery, shardhash)\<close>.
  A \<^verbatim>\<open>DELETE\<close> installs a tombstone without bytes.
\<close>

definition commitRow :: "Env \<Rightarrow> string \<Rightarrow> int \<Rightarrow> int \<Rightarrow> string \<Rightarrow> (string \<rightharpoonup> string) \<Rightarrow> bool \<Rightarrow> IndexDBItem" where
  "commitRow env hash shard timestamp meth metadata nursery =
     \<lparr>Hash = hash, Shard = shard, Timestamp = timestamp, Nursery = nursery,
      Deletion = (meth = ''DELETE''), Metahash = Digest env metadata,
      Metabytes = Marshal env metadata,
      Path = (if meth = ''DELETE'' then []
              else case WholeObjectPath env hash shard timestamp nursery of
                     None \<Rightarrow> [] | Some p \<Rightarrow> p),
      Restabilize = False\<rparr>"

text \<open>
  Modelled from the spec: \<^verbatim>\<open>remove\<close> is an "optimistic delete: removes the row only
  if it still matches the given timestamp/metahash", and returns the number of rows
  removed.
\<close>

definition idb_Remove :: "IndexDB \<Rightarrow> string \<Rightarrow> int \<Rightarrow> int \<Rightarrow> bool \<Rightarrow> string \<Rightarrow> (error + nat) \<times> IndexDB" where
  "idb_Remove db hash shard timestamp nursery metahash =
     (if \<not> reachable db then (Inl DatabaseError, db)
      else case rows db (hash, shard) of
             None \<Rightarrow> (Inr 0, db)
           | Some stored \<Rightarrow>
               if Timestamp stored = timestamp \<and> Nursery stored = nursery \<and> Metahash stored = metahash
               then (Inr 1, db\<lparr>rows := (rows db)((hash, shard) := None)\<rparr>)
               else (Inr 0, db))"

text \<open>
  Modelled from the spec: \<^verbatim>\<open>setStabilized(hash, shard, timestamp, nursery)\<close>
  "transactionally flips the nursery flag": the row of that key and timestamp leaves the
  nursery. The spec does not say what the last argument selects; it is kept in the
  trace and not interpreted.
\<close>

definition idb_SetStabilized :: "IndexDB \<Rightarrow> string \<Rightarrow> int \<Rightarrow> int \<Rightarrow> bool \<Rightarrow> error option \<times> IndexDB" where
  "idb_SetStabilized db hash shard timestamp flag =
     (if \<not> reachable db then (Some DatabaseError, db)
      else case rows db (hash, shard) of
             None \<Rightarrow> (None, db)
           | Some stored \<Rightarrow>
               if Timestamp stored = timestamp
               then (None, db\<lparr>rows := (rows db)((hash, shard) \<mapsto> stored\<lparr>Nursery := False\<rparr>)\<rparr>)
               else (None, db))"

section \<open>The replicated object\<close>

text \<open>
  \<^verbatim>\<open>repObject\<close> embeds \<^verbatim>\<open>IndexDBItem\<close>. The HTTP client is the environment's
  \<^verbatim>\<open>Do\<close>, the database handle is the database value passed to each operation, and
  \<^verbatim>\<open>atomicFileWriter\<close> is the name of the open temporary file, if any.
\<close>

record repObject = IndexDBItem +
  reserve :: int
  ring :: Ring
  policy :: int
  loaded :: bool
  atomicFileWriter :: "string option"
  metadata :: "string \<rightharpoonup> string"
  txnId :: string

definition roShard :: int where
  "roShard = 0"

definition ContentLength_ro :: "Env \<Rightarrow> repObject \<Rightarrow> int" where
  "ContentLength_ro env ro =
     (case ParseInt env (mapIndex (metadata ro) ''Content-Length'') of
        None \<Rightarrow> - 1 | Some contentLength \<Rightarrow> contentLength)"

definition Exists :: "repObject \<Rightarrow> bool" where
  "Exists ro = (if Deletion ro then False else Path ro \<noteq> [])"

subsection \<open>Commit, Delete, CommitMetadata\<close>

definition commit :: "Env \<Rightarrow> repObject \<Rightarrow> (string \<rightharpoonup> string) \<Rightarrow> string \<Rightarrow> bool \<Rightarrow> IndexDB \<Rightarrow>
    error option \<times> repObject \<times> IndexDB \<times> event list" where
  "commit env ro md meth nursery db =
     (case md ''X-Timestamp'' of
        None \<Rightarrow> (Some NoTimestampInMetadata, ro, db, [])
      | Some timestampStr \<Rightarrow>
          (case ParseDate env timestampStr of
             None \<Rightarrow> (Some ParseDateError, ro, db, [])
           | Some timestamp \<Rightarrow>
               (let (err, db') = idb_Commit db (commitRow env (Hash ro) roShard timestamp meth md nursery)
                in (err, ro\<lparr>atomicFileWriter := None\<rparr>, db',
                    [EvCommit (Hash ro) roShard timestamp meth nursery]))))"

definition Commit :: "Env \<Rightarrow> repObject \<Rightarrow> (string \<rightharpoonup> string) \<Rightarrow> IndexDB \<Rightarrow>
    error option \<times> repObject \<times> IndexDB \<times> event list" where
  "Commit env ro md db = commit env ro md ''PUT'' True db"

definition Delete :: "Env \<Rightarrow> repObject \<Rightarrow> (string \<rightharpoonup> string) \<Rightarrow> IndexDB \<Rightarrow>
    error option \<times> repObject \<times> IndexDB \<times> event list" where
  "Delete env ro md db = commit env ro md ''DELETE'' True db"

definition CommitMetadata :: "Env \<Rightarrow> repObject \<Rightarrow> (string \<rightharpoonup> string) \<Rightarrow> IndexDB \<Rightarrow>
    error option \<times> repObject \<times> IndexDB \<times> event list" where
  "CommitMetadata env ro md db = commit env ro md ''POST'' (Nursery ro) db"

subsection \<open>Requests to the peers\<close>

definition sameDevice :: "Device \<Rightarrow> Device \<Rightarrow> bool" where
  "sameDevice node dev = (Ip node = Ip dev \<and> Port node = Port dev \<and> Device node = Device dev)"

definition headURL :: "Env \<Rightarrow> repObject \<Rightarrow> 64 word \<Rightarrow> Device \<Rightarrow> string" where
  "headURL env ro part node =
     Scheme node @ ''://'' @ Ip node @ '':'' @ showInt (Port node) @ ''/'' @ Device node @ ''/'' @
     showNat (unat part) @ Urlencode env (mapIndex (metadata ro) ''name'')"

definition headRequest :: "Env \<Rightarrow> repObject \<Rightarrow> 64 word \<Rightarrow> Device \<Rightarrow> Request" where
  "headRequest env ro part node =
     \<lparr>Method = ''HEAD'', URL = headURL env ro part node,
      Header = [(''X-Backend-Storage-Policy-Index'', showInt (policy ro)),
                (''User-Agent'', ''nursery-stabilizer'')],
      MetaHeader = Map.empty, ContentLength = 0, BodyFile = None\<rparr>"

definition repObjURL :: "repObject \<Rightarrow> string \<Rightarrow> int \<Rightarrow> Device \<Rightarrow> string" where
  "repObjURL ro host port node =
     Scheme node @ ''://'' @ host @ '':'' @ showInt port @ ''/rep-obj/'' @ Device node @ ''/'' @ Hash ro"

definition peerHeaders :: "repObject \<Rightarrow> (string \<times> string) list" where
  "peerHeaders ro =
     [(''X-Timestamp'', mapIndex (metadata ro) ''X-Timestamp''),
      (''X-Backend-Storage-Policy-Index'', showInt (policy ro)),
      (''X-Trans-Id'', txnId ro)]"

definition deleteRequest :: "repObject \<Rightarrow> Device \<Rightarrow> Request" where
  "deleteRequest ro node =
     \<lparr>Method = ''DELETE'', URL = repObjURL ro (ReplicationIp node) (ReplicationPort node) node,
      Header = peerHeaders ro, MetaHeader = Map.empty, ContentLength = 0, BodyFile = None\<rparr>"

definition postRequest :: "repObject \<Rightarrow> Device \<Rightarrow> Request" where
  "postRequest ro node =
     \<lparr>Method = ''POST'', URL = repObjURL ro (ReplicationIp node) (ReplicationPort node) node,
      Header = peerHeaders ro, MetaHeader = metadata ro, ContentLength = 0, BodyFile = None\<rparr>"

definition putRequest :: "Env \<Rightarrow> repObject \<Rightarrow> Device \<Rightarrow> Request" where
  "putRequest env ro node =
     \<lparr>Method = ''PUT'', URL = repObjURL ro (Ip node) (Port node) node,
      Header = peerHeaders ro, MetaHeader = metadata ro,
      ContentLength = ContentLength_ro env ro, BodyFile = Some (Path ro)\<rparr>"

subsection \<open>isStable: the quorum check\<close>

text \<open>
  A peer agrees when the request went through, the status is 2xx, and the
  \<^verbatim>\<open>X-Timestamp\<close> header it reports is not empty and equals the object's own.
\<close>

definition agrees :: "Response option \<Rightarrow> repObject \<Rightarrow> bool" where
  "agrees r ro =
     (case r of
        None \<Rightarrow> False
      | Some resp \<Rightarrow>
          StatusCode resp div 100 = 2 \<and>
          mapIndex (RespHeader resp) ''X-Timestamp'' \<noteq> [] \<and>
          mapIndex (RespHeader resp) ''X-Timestamp'' = mapIndex (metadata ro) ''X-Timestamp'')"

text \<open>
  The loop over the primaries. The source ignores the error of \<^verbatim>\<open>http.NewRequest\<close>
  and sets headers on the request it returned: a refused URL is a nil dereference.
\<close>

fun isStable_loop :: "Env \<Rightarrow> repObject \<Rightarrow> Device \<Rightarrow> 64 word \<Rightarrow> Device list \<Rightarrow>
    64 word \<Rightarrow> Device list \<Rightarrow> event list \<Rightarrow> (error + 64 word \<times> Device list) \<times> event list" where
  "isStable_loop env ro dev part [] goodNodes notFoundNodes tr =
     (Inr (goodNodes, notFoundNodes), tr)"
| "isStable_loop env ro dev part (node # nodes) goodNodes notFoundNodes tr =
     (if sameDevice node dev
      then isStable_loop env ro dev part nodes (goodNodes + 1) notFoundNodes tr
      else if \<not> NewRequestOk env ''HEAD'' (headURL env ro part node)
      then (Inl NilDereference, tr)
      else if agrees (Do env (headRequest env ro part node)) ro
      then isStable_loop env ro dev part nodes (goodNodes + 1) notFoundNodes
             (tr @ [EvDo (headRequest env ro part node)])
      else isStable_loop env ro dev part nodes goodNodes (notFoundNodes @ [node])
             (tr @ [EvDo (headRequest env ro part node)]))"

definition isStable :: "Env \<Rightarrow> repObject \<Rightarrow> Device \<Rightarrow> (error + bool \<times> Device list) \<times> event list" where
  "isStable env ro dev =
     (if Deletion ro then (Inl JustSendDeletions, [])
      else case PartitionForHash (ring ro) (Hash ro) of
             Inl err \<Rightarrow> (Inl err, [])
           | Inr part \<Rightarrow>
               (case isStable_loop env ro dev part (GetNodes (ring ro) part) 0 [] [] of
                  (Inl err, tr) \<Rightarrow> (Inl err, tr)
                | (Inr (goodNodes, notFoundNodes), tr) \<Rightarrow>
                    (Inr (goodNodes = ReplicaCount (ring ro), notFoundNodes), tr)))"

subsection \<open>stabilizeDelete and restabilize\<close>

text \<open>
  The requests are sent from goroutines and counted atomically; the count does not
  depend on their order, so the loop sends them one after the other. A request already
  started is still sent when a later \<^verbatim>\<open>http.NewRequest\<close> fails.
\<close>

definition deleteAcked :: "Response option \<Rightarrow> bool" where
  "deleteAcked r =
     (case r of
        None \<Rightarrow> False
      | Some resp \<Rightarrow> StatusCode resp div 100 = 2 \<or> StatusCode resp = 409 \<or> StatusCode resp = 404)"

fun stabilizeDelete_loop :: "Env \<Rightarrow> repObject \<Rightarrow> Device \<Rightarrow> Device list \<Rightarrow> int \<Rightarrow> event list \<Rightarrow>
    (error + int) \<times> event list" where
  "stabilizeDelete_loop env ro dev [] successes tr = (Inr successes, tr)"
| "stabilizeDelete_loop env ro dev (node # nodes) successes tr =
     (if sameDevice node dev then stabilizeDelete_loop env ro dev nodes successes tr
      else if \<not> NewRequestOk env ''DELETE'' (URL (deleteRequest ro node))
      then (Inl NewRequestError, tr)
      else stabilizeDelete_loop env ro dev nodes
             (if deleteAcked (Do env (deleteRequest ro node)) then successes + 1 else successes)
             (tr @ [EvDo (deleteRequest ro node)]))"

definition stabilizeDelete :: "Env \<Rightarrow> repObject \<Rightarrow> Device \<Rightarrow> IndexDB \<Rightarrow> error option \<times> IndexDB \<times> event list" where
  "stabilizeDelete env ro dev db =
     (case PartitionForHash (ring ro) (Hash ro) of
        Inl err \<Rightarrow> (Some err, db, [])
      | Inr part \<Rightarrow>
          (let nodes = GetNodes (ring ro) part in
           case stabilizeDelete_loop env ro dev nodes 0 [] of
             (Inl err, tr) \<Rightarrow> (Some err, db, tr)
           | (Inr successes, tr) \<Rightarrow>
               if successes + 1 \<noteq> int (length nodes)
               then (Some (CouldNotStabilizeDelete successes (int (length nodes) - 1)), db, tr)
               else (case idb_Remove db (Hash ro) (Shard ro) (Timestamp ro) (Nursery ro) (Metahash ro) of
                       (r, db') \<Rightarrow>
                         ((case r of Inl err \<Rightarrow> Some err | Inr _ \<Rightarrow> None), db',
                          tr @ [EvRemove (Hash ro) (Shard ro) (Timestamp ro) (Nursery ro) (Metahash ro)]))))"

definition postAcked :: "Response option \<Rightarrow> bool" where
  "postAcked r =
     (case r of
        None \<Rightarrow> False
      | Some resp \<Rightarrow> StatusCode resp div 100 = 2 \<or> StatusCode resp = 409)"

fun restabilize_loop :: "Env \<Rightarrow> repObject \<Rightarrow> Device \<Rightarrow> Device list \<Rightarrow> int \<Rightarrow> event list \<Rightarrow>
    (error + int) \<times> event list" where
  "restabilize_loop env ro dev [] successes tr = (Inr successes, tr)"
| "restabilize_loop env ro dev (node # nodes) successes tr =
     (if sameDevice node dev then restabilize_loop env ro dev nodes successes tr
      else if \<not> NewRequestOk env ''POST'' (URL (postRequest ro node))
      then (Inl NewRequestError, tr)
      else restabilize_loop env ro dev nodes
             (if postAcked (Do env (postRequest ro node)) then successes + 1 else successes)
             (tr @ [EvDo (postRequest ro node)]))"

definition restabilize :: "Env \<Rightarrow> repObject \<Rightarrow> Device \<Rightarrow> IndexDB \<Rightarrow> error option \<times> IndexDB \<times> event list" where
  "restabilize env ro dev db =
     (case PartitionForHash (ring ro) (Hash ro) of
        Inl err \<Rightarrow> (Some err, db, [])
      | Inr part \<Rightarrow>
          (let nodes = GetNodes (ring ro) part in
           case restabilize_loop env ro dev nodes 0 [] of
             (Inl err, tr) \<Rightarrow> (Some err, db, tr)
           | (Inr successes, tr) \<Rightarrow>
               if successes \<noteq> int (length nodes) - 1
               then (Some (CouldNotRestabilize successes (int (length nodes))), db, tr)
               else (case idb_SetStabilized db (Hash ro) (Shard ro) (Timestamp ro) False of
                       (err, db') \<Rightarrow>
                         (err, db', tr @ [EvSetStabilized (Hash ro) (Shard ro) (Timestamp ro) False]))))"

subsection \<open>Replicate and Stabilize\<close>

definition Replicate :: "Env \<Rightarrow> repObject \<Rightarrow> PriorityRepJob \<Rightarrow> IndexDB \<Rightarrow> error option \<times> IndexDB \<times> event list" where
  "Replicate env ro prirep db =
     (let isHandoff = snd (GetJobNodes (ring ro) (Partition prirep) (Id_dev (FromDevice prirep))) in
      if \<not> OpenOk env (Path ro) then (Some OpenError, db, [])
      else if \<not> NewRequestOk env ''PUT'' (URL (putRequest env ro (ToDevice prirep)))
      then (Some NewRequestError, db, [])
      else case Do env (putRequest env ro (ToDevice prirep)) of
             None \<Rightarrow> (Some (ErrorSyncingObj (Hash ro)), db, [EvDo (putRequest env ro (ToDevice prirep))])
           | Some resp \<Rightarrow>
               if \<not> (StatusCode resp div 100 = 2 \<or> StatusCode resp = 409)
               then (Some (BadStatusCode (StatusCode resp) (Hash ro)), db,
                     [EvDo (putRequest env ro (ToDevice prirep))])
               else if isHandoff
               then (case idb_Remove db (Hash ro) (Shard ro) (Timestamp ro) (Nursery ro) (Metahash ro) of
                       (r, db') \<Rightarrow>
                         ((case r of Inl err \<Rightarrow> Some err | Inr _ \<Rightarrow> None), db',
                          [EvDo (putRequest env ro (ToDevice prirep)),
                           EvRemove (Hash ro) (Shard ro) (Timestamp ro) (Nursery ro) (Metahash ro)]))
               else (None, db, [EvDo (putRequest env ro (ToDevice prirep))]))"

text \<open>
  The loop of \<^verbatim>\<open>Stabilize\<close> over the peers that did not agree: one \<^verbatim>\<open>Replicate\<close>
  call each, its errors collected.
\<close>

fun replicate_loop :: "Env \<Rightarrow> repObject \<Rightarrow> Device \<Rightarrow> 64 word \<Rightarrow> Device list \<Rightarrow> IndexDB \<Rightarrow>
    error list \<Rightarrow> event list \<Rightarrow> error list \<times> IndexDB \<times> event list" where
  "replicate_loop env ro dev part [] db errs tr = (errs, db, tr)"
| "replicate_loop env ro dev part (notFoundNode # rest) db errs tr =
     (let job = \<lparr>Partition = part, FromDevice = dev, ToDevice = notFoundNode, Policy = policy ro\<rparr> in
      case Replicate env ro job db of
        (err, db', tr') \<Rightarrow>
          replicate_loop env ro dev part rest db'
            (case err of None \<Rightarrow> errs | Some e \<Rightarrow> errs @ [e])
            (tr @ EvReplicate job # tr'))"

definition Stabilize :: "Env \<Rightarrow> repObject \<Rightarrow> Device \<Rightarrow> IndexDB \<Rightarrow> error option \<times> IndexDB \<times> event list" where
  "Stabilize env ro dev db =
     (case PartitionForHash (ring ro) (Hash ro) of
        Inl err \<Rightarrow> (Some err, db, [])
      | Inr part \<Rightarrow>
          if Restabilize ro then restabilize env ro dev db
          else if \<not> Nursery ro then (None, db, [])
          else if Deletion ro then stabilizeDelete env ro dev db
          else (case isStable env ro dev of
                  (Inl err, tr) \<Rightarrow> (Some err, db, tr)
                | (Inr (isStable', notFoundNodes), tr) \<Rightarrow>
                    if isStable' then
                      (if snd (GetJobNodes (ring ro) part (Id_dev dev))
                       then (case idb_Remove db (Hash ro) (Shard ro) (Timestamp ro) (Nursery ro) (Metahash ro) of
                               (r, db') \<Rightarrow>
                                 ((case r of Inl err \<Rightarrow> Some err | Inr _ \<Rightarrow> None), db',
                                  tr @ [EvRemove (Hash ro) (Shard ro) (Timestamp ro) (Nursery ro) (Metahash ro)]))
                       else (case idb_SetStabilized db (Hash ro) roShard (Timestamp ro) True of
                               (err, db') \<Rightarrow>
                                 (err, db', tr @ [EvSetStabilized (Hash ro) roShard (Timestamp ro) True])))
                    else (case replicate_loop env ro dev part notFoundNodes db [] tr of
                            (errs, db', tr') \<Rightarrow>
                              (case errs of
                                 e # _ \<Rightarrow> (Some e, db', tr')
                               | [] \<Rightarrow> (Some (CouldNotStabilize (length notFoundNodes)), db', tr')))))"

section \<open>The engines\<close>

text \<open>
  The handle of an opened index database, as the engines read it: the methods
  \<^verbatim>\<open>Lookup\<close>, \<^verbatim>\<open>RingPartRange\<close>, \<^verbatim>\<open>List\<close> and \<^verbatim>\<open>ListObjectsToStabilize\<close> are
  declared outside the sources and are fields here.
\<close>

record IndexDBHandle =
  Lookup :: "string \<Rightarrow> int \<Rightarrow> bool \<Rightarrow> error + IndexDBItem option"
  RingPartRange :: "int \<Rightarrow> string \<times> string"
  List_idb :: "string \<Rightarrow> string \<Rightarrow> string \<Rightarrow> int \<Rightarrow> IndexDBItem list \<times> error option"
  ListObjectsToStabilize :: "error + IndexDBItem list"

text \<open>
  \<^verbatim>\<open>repEngine\<close>. \<^verbatim>\<open>getDB\<close> opens the database of a device once and keeps the handle;
  what it returns for each device is the field \<^verbatim>\<open>getDB_re\<close>.
\<close>

record repEngine =
  hashPathPrefix_re :: string
  hashPathSuffix_re :: string
  reserve_re :: int
  policy_re :: int
  ring_re :: Ring
  getDB_re :: "string \<Rightarrow> error + IndexDBHandle"

definition mkRepObject :: "repEngine \<Rightarrow> IndexDBItem \<Rightarrow> (string \<rightharpoonup> string) \<Rightarrow> string \<Rightarrow> repObject" where
  "mkRepObject re item md txn =
     \<lparr>Hash = Hash item, Shard = Shard item, Timestamp = Timestamp item, Nursery = Nursery item,
      Deletion = Deletion item, Metahash = Metahash item, Metabytes = Metabytes item,
      Path = Path item, Restabilize = Restabilize item,
      reserve = reserve_re re, ring = ring_re re, policy = policy_re re, loaded = False,
      atomicFileWriter = None, metadata = md, txnId = txn\<rparr>"

definition emptyItem :: "string \<Rightarrow> bool \<Rightarrow> IndexDBItem" where
  "emptyItem hash nursery =
     \<lparr>Hash = hash, Shard = 0, Timestamp = 0, Nursery = nursery, Deletion = False, Metahash = [],
      Metabytes = [], Path = [], Restabilize = False\<rparr>"

definition New_rep :: "Env \<Rightarrow> repEngine \<Rightarrow> (string \<rightharpoonup> string) \<Rightarrow> bool \<Rightarrow> (error + repObject) \<times> event list" where
  "New_rep env re vars needData =
     (let hash = ObjHash env vars (hashPathPrefix_re re) (hashPathSuffix_re re) in
      case getDB_re re (mapIndex vars ''device'') of
        Inl err \<Rightarrow> (Inl err, [])
      | Inr idb \<Rightarrow>
          (case Lookup idb hash roShard False of
             Inl err \<Rightarrow> (Inl err, [])
           | Inr None \<Rightarrow> (Inr (mkRepObject re (emptyItem hash False) Map.empty (mapIndex vars ''txnId'')), [])
           | Inr (Some item) \<Rightarrow>
               (case Unmarshal env (Metabytes item) of
                  None \<Rightarrow> (Inl ErrorParsingMetadata, [])
                | Some md \<Rightarrow>
                    if \<not> Deletion item then
                      (case Stat env (Path item) of
                         None \<Rightarrow> (Inl StatError, [EvQuarantine item])
                       | Some fsize \<Rightarrow>
                           (case ParseInt env (mapIndex md ''Content-Length'') of
                              None \<Rightarrow>
                                (Inl (UnableToParseContentLength (mapIndex md ''Content-Length'')),
                                 [EvQuarantine item])
                            | Some contentLength \<Rightarrow>
                                if fsize \<noteq> contentLength
                                then (Inl (FileSizeMismatch fsize contentLength), [EvQuarantine item])
                                else (Inr (mkRepObject re item md (mapIndex vars ''txnId'')), [])))
                    else (Inr (mkRepObject re item md (mapIndex vars ''txnId'')), []))))"

text \<open>
  \<^verbatim>\<open>ecEngine\<close> and the \<^verbatim>\<open>ecObject\<close> it builds (the object's own methods are
  declared outside the sources). \<^verbatim>\<open>shardAny\<close> is a constant of the index database.
\<close>

record ecEngine =
  hashPathPrefix_ec :: string
  hashPathSuffix_ec :: string
  reserve_ec :: int
  policy_ec :: int
  ring_ec :: Ring
  getDB_ec :: "string \<Rightarrow> error + IndexDBHandle"
  dataShards_ec :: int
  parityShards_ec :: int
  chunkSize_ec :: int
  nurseryReplicas_ec :: int
  shardAny :: int

record ecObject = IndexDBItem +
  dataShards :: int
  parityShards :: int
  chunkSize :: int
  reserve_eo :: int
  ring_eo :: Ring
  policy_eo :: int
  metadata_eo :: "string \<rightharpoonup> string"
  nurseryReplicas :: int
  txnId_eo :: string

definition mkEcObject :: "ecEngine \<Rightarrow> IndexDBItem \<Rightarrow> (string \<rightharpoonup> string) \<Rightarrow> int \<Rightarrow> string \<Rightarrow> ecObject" where
  "mkEcObject f item md nr txn =
     \<lparr>Hash = Hash item, Shard = Shard item, Timestamp = Timestamp item, Nursery = Nursery item,
      Deletion = Deletion item, Metahash = Metahash item, Metabytes = Metabytes item,
      Path = Path item, Restabilize = Restabilize item,
      dataShards = dataShards_ec f, parityShards = parityShards_ec f, chunkSize = chunkSize_ec f,
      reserve_eo = reserve_ec f, ring_eo = ring_ec f, policy_eo = policy_ec f, metadata_eo = md,
      nurseryReplicas = nr, txnId_eo = txn\<rparr>"

definition New_ec :: "Env \<Rightarrow> ecEngine \<Rightarrow> (string \<rightharpoonup> string) \<Rightarrow> bool \<Rightarrow> (error + ecObject) \<times> event list" where
  "New_ec env f vars needData =
     (let hash = ObjHash env vars (hashPathPrefix_ec f) (hashPathSuffix_ec f) in
      case getDB_ec f (mapIndex vars ''device'') of
        Inl err \<Rightarrow> (Inl UnableToOpenDatabase, [])
      | Inr idb \<Rightarrow>
          (case Lookup idb hash (shardAny f) False of
             Inl err \<Rightarrow> (Inl err, [])
           | Inr None \<Rightarrow>
               (Inr (mkEcObject f (emptyItem hash True) Map.empty (nurseryReplicas_ec f) (mapIndex vars ''txnId'')), [])
           | Inr (Some item) \<Rightarrow>
               (case Unmarshal env (Metabytes item) of
                  None \<Rightarrow> (Inl ErrorParsingMetadata, [])
                | Some md \<Rightarrow>
                    if \<not> Deletion item then
                      (case Stat env (Path item) of
                         None \<Rightarrow> (Inl StatError, [EvQuarantine item])
                       | Some fsize \<Rightarrow>
                           (case ParseInt env (mapIndex md ''Content-Length'') of
                              None \<Rightarrow>
                                (Inl (UnableToParseContentLength (mapIndex md ''Content-Length'')),
                                 [EvQuarantine item])
                            | Some contentLength \<Rightarrow>
                                if Nursery item \<and> fsize \<noteq> contentLength
                                then (Inl (FileSizeMismatch fsize contentLength), [EvQuarantine item])
                                else if \<not> Nursery item \<and> fsize \<noteq> ecShardLength env contentLength (dataShards_ec f)
                                then (Inl (ShardSizeMismatch fsize
                                             (ecShardLength env contentLength (dataShards_ec f))
                                             contentLength (dataShards_ec f)),
                                      [EvQuarantine item])
                                else (Inr (mkEcObject f item md (nurseryReplicas_ec f) (mapIndex vars ''txnId'')), [])))
                    else (Inr (mkEcObject f item md (nurseryReplicas_ec f) (mapIndex vars ''txnId'')), []))))"

subsection \<open>GetObjectsToReplicate: the merge-join against the remote listing\<close>

text \<open>
  The functions below return what the producer sends on its channel when the consumer
  takes every object and never cancels.
\<close>

definition sameVersion :: "IndexDBItem \<Rightarrow> IndexDBItem \<Rightarrow> bool" where
  "sameVersion r item =
     (Hash r = Hash item \<and> Timestamp r = Timestamp item \<and> Nursery r = Nursery item \<and>
      Deletion r = Deletion item)"

text \<open>
  The inner loop over \<^verbatim>\<open>remoteItems[rii:]\<close>: it returns \<^verbatim>\<open>sendItem\<close> and the part
  of the remote listing that is left for the next local item.
\<close>

fun matchRemote :: "IndexDBItem \<Rightarrow> IndexDBItem list \<Rightarrow> bool \<times> IndexDBItem list" where
  "matchRemote item [] = (True, [])"
| "matchRemote item (r # rs) =
     (if Hash r > Hash item then (True, r # rs)
      else if Hash r < Hash item then matchRemote item rs
      else (\<not> sameVersion r item, rs))"

fun replicateItems_rep :: "Env \<Rightarrow> repEngine \<Rightarrow> PriorityRepJob \<Rightarrow> IndexDBItem list \<Rightarrow> IndexDBItem list \<Rightarrow>
    nat \<Rightarrow> repObject list" where
  "replicateItems_rep env re prirep [] remoteItems n = []"
| "replicateItems_rep env re prirep (item # items) remoteItems n =
     (if Nursery item then replicateItems_rep env re prirep items remoteItems n
      else case matchRemote item remoteItems of
        (sendItem, remoteItems') \<Rightarrow>
          (case Unmarshal env (Metabytes item) of
             None \<Rightarrow> replicateItems_rep env re prirep items remoteItems' (Suc n)
           | Some md \<Rightarrow>
               (case WholeObjectPath env (Hash item) (Shard item) (Timestamp item) (Nursery item) of
                  None \<Rightarrow> replicateItems_rep env re prirep items remoteItems' (Suc n)
                | Some p \<Rightarrow>
                    if sendItem
                    then mkRepObject re (item\<lparr>Path := p\<rparr>) md
                           (UUID env n @ ''-'' @ Device (FromDevice prirep))
                         # replicateItems_rep env re prirep items remoteItems' (Suc n)
                    else replicateItems_rep env re prirep items remoteItems' (Suc n))))"

definition partitionURL :: "string \<Rightarrow> PriorityRepJob \<Rightarrow> string" where
  "partitionURL route prirep =
     Scheme (ToDevice prirep) @ ''://'' @ Ip (ToDevice prirep) @ '':'' @ showInt (Port (ToDevice prirep)) @
     ''/'' @ route @ ''/'' @ Device (ToDevice prirep) @ ''/'' @ showNat (unat (Partition prirep))"

definition partitionRequest :: "string \<Rightarrow> PriorityRepJob \<Rightarrow> Request" where
  "partitionRequest route prirep =
     \<lparr>Method = ''GET'', URL = partitionURL route prirep,
      Header = [(''X-Backend-Storage-Policy-Index'', showInt (Policy prirep)),
                (''User-Agent'', ''nursery-stabilizer'')],
      MetaHeader = Map.empty, ContentLength = 0, BodyFile = None\<rparr>"

text \<open>
  The remote listing as the engines read it from the response: a 2xx or 404 answer
  whose body can be read is decoded, anything else leaves the listing empty.
\<close>

definition remoteListing :: "Env \<Rightarrow> Response \<Rightarrow> IndexDBItem list" where
  "remoteListing env resp =
     (if StatusCode resp div 100 = 2 \<or> StatusCode resp = 404
      then (case Body resp of None \<Rightarrow> [] | Some data \<Rightarrow> UnmarshalItems env data)
      else [])"

definition GetObjectsToReplicate_rep :: "Env \<Rightarrow> repEngine \<Rightarrow> PriorityRepJob \<Rightarrow>
    error option \<times> repObject list \<times> event list" where
  "GetObjectsToReplicate_rep env re prirep =
     (case getDB_re re (Device (FromDevice prirep)) of
        Inl err \<Rightarrow> (None, [], [])
      | Inr idb \<Rightarrow>
          (case RingPartRange idb (sint (Partition prirep)) of
             (startHash, stopHash) \<Rightarrow>
               (case List_idb idb startHash stopHash [] 0 of
                  (items, err) \<Rightarrow>
                    if items = [] then (None, [], [])
                    else if \<not> NewRequestOk env ''GET'' (partitionURL ''rep-partition'' prirep)
                    then (Some NilDereference, [], [])
                    else (case Do env (partitionRequest ''rep-partition'' prirep) of
                            None \<Rightarrow> (None, [], [EvDo (partitionRequest ''rep-partition'' prirep)])
                          | Some resp \<Rightarrow>
                              (None,
                               replicateItems_rep env re prirep items (remoteListing env resp) 0,
                               [EvDo (partitionRequest ''rep-partition'' prirep)])))))"

fun replicateItems_ec :: "Env \<Rightarrow> ecEngine \<Rightarrow> PriorityRepJob \<Rightarrow> IndexDBItem list \<Rightarrow> IndexDBItem list \<Rightarrow>
    nat \<Rightarrow> ecObject list" where
  "replicateItems_ec env f prirep [] remoteItems n = []"
| "replicateItems_ec env f prirep (item # items) remoteItems n =
     (if Nursery item then replicateItems_ec env f prirep items remoteItems n
      else case matchRemote item remoteItems of
        (sendItem, remoteItems') \<Rightarrow>
          if sendItem then
            (case Unmarshal env (Metabytes item) of
               None \<Rightarrow> replicateItems_ec env f prirep items remoteItems' (Suc n)
             | Some md \<Rightarrow>
                 (case WholeObjectPath env (Hash item) (Shard item) (Timestamp item) (Nursery item) of
                    None \<Rightarrow> replicateItems_ec env f prirep items remoteItems' (Suc n)
                  | Some p \<Rightarrow>
                      mkEcObject f (item\<lparr>Path := p\<rparr>) md 0
                        (UUID env n @ ''-'' @ Device (FromDevice prirep))
                      # replicateItems_ec env f prirep items remoteItems' (Suc n)))
          else replicateItems_ec env f prirep items remoteItems' n)"

definition GetObjectsToReplicate_ec :: "Env \<Rightarrow> ecEngine \<Rightarrow> PriorityRepJob \<Rightarrow>
    error option \<times> ecObject list \<times> event list" where
  "GetObjectsToReplicate_ec env f prirep =
     (case getDB_ec f (Device (FromDevice prirep)) of
        Inl err \<Rightarrow> (None, [], [])
      | Inr idb \<Rightarrow>
          (case RingPartRange idb (sint (Partition prirep)) of
             (startHash, stopHash) \<Rightarrow>
               (case List_idb idb startHash stopHash [] 0 of
                  (items, err) \<Rightarrow>
                    if items = [] then (None, [], [])
                    else if \<not> NewRequestOk env ''GET'' (partitionURL ''ec-partition'' prirep)
                    then (Some NilDereference, [], [])
                    else (case Do env (partitionRequest ''ec-partition'' prirep) of
                            None \<Rightarrow> (None, [], [EvDo (partitionRequest ''ec-partition'' prirep)])
                          | Some resp \<Rightarrow>
                              (None,
                               replicateItems_ec env f prirep items (remoteListing env resp) 0,
                               [EvDo (partitionRequest ''ec-partition'' prirep)])))))"

subsection \<open>getObjectsToStabilize\<close>

fun stabilizeItems_rep :: "Env \<Rightarrow> repEngine \<Rightarrow> Device \<Rightarrow> IndexDBItem list \<Rightarrow> nat \<Rightarrow> repObject list" where
  "stabilizeItems_rep env re device [] n = []"
| "stabilizeItems_rep env re device (item # items) n =
     (case Unmarshal env (Metabytes item) of
        None \<Rightarrow> stabilizeItems_rep env re device items (Suc n)
      | Some md \<Rightarrow>
          mkRepObject re item md (UUID env n @ ''-'' @ Device device)
          # stabilizeItems_rep env re device items (Suc n))"

definition getObjectsToStabilize_rep :: "Env \<Rightarrow> repEngine \<Rightarrow> Device \<Rightarrow> repObject list \<times> event list" where
  "getObjectsToStabilize_rep env re device =
     (case getDB_re re (Device device) of
        Inl err \<Rightarrow> ([], [])
      | Inr idb \<Rightarrow>
          (case ListObjectsToStabilize idb of
             Inl err \<Rightarrow> ([], [EvExpireObjects, EvListObjectsToStabilize])
           | Inr idbItems \<Rightarrow>
               (stabilizeItems_rep env re device idbItems 0,
                [EvExpireObjects, EvListObjectsToStabilize])))"

fun stabilizeItems_ec :: "Env \<Rightarrow> ecEngine \<Rightarrow> Device \<Rightarrow> IndexDBItem list \<Rightarrow> nat \<Rightarrow> ecObject list" where
  "stabilizeItems_ec env f device [] n = []"
| "stabilizeItems_ec env f device (item # items) n =
     (case Unmarshal env (Metabytes item) of
        None \<Rightarrow> stabilizeItems_ec env f device items (Suc n)
      | Some md \<Rightarrow>
          mkEcObject f item md (nurseryReplicas_ec f) (UUID env n @ ''-'' @ Device device)
          # stabilizeItems_ec env f device items (Suc n))"

text \<open>
  The shuffle: \<^verbatim>\<open>for i := len(objs) - 1; i > 0; i-- { j := rand.Intn(i + 1); swap }\<close>.
  The second counter numbers the draws.
\<close>

fun shuffle_loop :: "(nat \<Rightarrow> nat) \<Rightarrow> nat \<Rightarrow> nat \<Rightarrow> 'a list \<Rightarrow> 'a list" where
  "shuffle_loop rnd 0 k objs = objs"
| "shuffle_loop rnd (Suc i) k objs =
     (let j = rnd k mod (Suc i + 1)
      in shuffle_loop rnd i (Suc k) (objs[j := objs ! Suc i, Suc i := objs ! j]))"

definition shuffle :: "(nat \<Rightarrow> nat) \<Rightarrow> 'a list \<Rightarrow> 'a list" where
  "shuffle rnd objs = shuffle_loop rnd (length objs - 1) 0 objs"

definition getObjectsToStabilize_ec :: "Env \<Rightarrow> ecEngine \<Rightarrow> Device \<Rightarrow> ecObject list \<times> event list" where
  "getObjectsToStabilize_ec env f device =
     (case getDB_ec f (Device device) of
        Inl err \<Rightarrow> ([], [])
      | Inr idb \<Rightarrow>
          (case ListObjectsToStabilize idb of
             Inl err \<Rightarrow> ([], [EvExpireObjects, EvListObjectsToStabilize])
           | Inr idbItems \<Rightarrow>
               (let objs = stabilizeItems_ec env f device idbItems 0
                in (shuffle (rand env) objs,
                    [EvExpireObjects, EvListObjectsToStabilize,
                     EvUpdateItemsBeingStabilized (Device device) (map IndexDBItem.truncate objs)]))))"

section \<open>The replication job planner\<close>

text \<open>
  Modelled from the spec: \<^verbatim>\<open>getPartMoveJobs\<close> is declared outside the sources (only
  its test is among them). "For every partition, diffs the old vs. new ordered
  device-assignment lists; for each slot whose assigned device changed, emits one
  \<^verbatim>\<open>PriorityRepJob{partition, from=old, to=new}\<close>; partitions already queued (in
  \<^verbatim>\<open>excluded\<close>) are skipped". The partitions of a ring are 0, 1, ... up to the first
  one either ring assigns no devices, which is how the rings of the test are read.
\<close>

definition slotJobs :: "64 word \<Rightarrow> int \<Rightarrow> Device list \<Rightarrow> Device list \<Rightarrow> PriorityRepJob list" where
  "slotJobs part pol olddevs newdevs =
     map (\<lambda>(olddev, newdev). \<lparr>Partition = part, FromDevice = olddev, ToDevice = newdev, Policy = pol\<rparr>)
       (filter (\<lambda>(olddev, newdev). olddev \<noteq> newdev) (zip olddevs newdevs))"

function getPartMoveJobs_from :: "Ring \<Rightarrow> Ring \<Rightarrow> 64 word list \<Rightarrow> int \<Rightarrow> 64 word \<Rightarrow> PriorityRepJob list" where
  "getPartMoveJobs_from oldRing newRing excluded pol part =
     (if GetNodes oldRing part = [] \<or> GetNodes newRing part = [] then []
      else (if part \<in> set excluded then []
            else slotJobs part pol (GetNodes oldRing part) (GetNodes newRing part)) @
           (if part + 1 = 0 then []
            else getPartMoveJobs_from oldRing newRing excluded pol (part + 1)))"
  by pat_completeness auto
termination
proof (relation "measure (\<lambda>(oldRing, newRing, excluded, pol, part). unat (- 1 - part))")
  show "wf (measure (\<lambda>(oldRing :: Ring, newRing :: Ring, excluded :: 64 word list, pol :: int, part :: 64 word).
              unat (- 1 - part)))"
    by simp
next
  fix oldRing newRing :: Ring and excluded :: "64 word list" and pol :: int and part :: "64 word"
  assume next_part: "part + 1 \<noteq> 0"
  have "- 1 - part \<noteq> 0"
  proof
    assume "- 1 - part = 0"
    then have "part = - 1" by (simp add: algebra_simps)
    with next_part show False by simp
  qed
  then have "unat (- 1 - part - 1) < unat (- 1 - part)" by (rule measure_unat)
  moreover have "- 1 - (part + 1) = - 1 - part - 1" by simp
  ultimately show "((oldRing, newRing, excluded, pol, part + 1), (oldRing, newRing, excluded, pol, part))
      \<in> measure (\<lambda>(oldRing, newRing, excluded, pol, part). unat (- 1 - part))"
    by simp
qed

declare getPartMoveJobs_from.simps [simp del]

definition getPartMoveJobs :: "Ring \<Rightarrow> Ring \<Rightarrow> 64 word list \<Rightarrow> int \<Rightarrow> PriorityRepJob list" where
  "getPartMoveJobs oldRing newRing excluded pol = getPartMoveJobs_from oldRing newRing excluded pol 0"

section \<open>Notions used in the statements\<close>

text \<open>
  The other primaries of a partition, as the loops of the object pick them: every node of
  the partition that is not the local device.
\<close>

definition peers :: "Device \<Rightarrow> Device list \<Rightarrow> Device list" where
  "peers dev nodes = filter (\<lambda>node. \<not> sameDevice node dev) nodes"

text \<open>What a trace holds: the replicate calls, the \<^verbatim>\<open>SetStabilized\<close> calls and the requests sent.\<close>

fun replicateCalls :: "event list \<Rightarrow> PriorityRepJob list" where
  "replicateCalls [] = []"
| "replicateCalls (EvReplicate job # tr) = job # replicateCalls tr"
| "replicateCalls (e # tr) = replicateCalls tr"

fun setStabilizedCalls :: "event list \<Rightarrow> nat" where
  "setStabilizedCalls [] = 0"
| "setStabilizedCalls (EvSetStabilized h s t f # tr) = Suc (setStabilizedCalls tr)"
| "setStabilizedCalls (e # tr) = setStabilizedCalls tr"

fun requestsOf :: "event list \<Rightarrow> Request list" where
  "requestsOf [] = []"
| "requestsOf (EvDo req # tr) = req # requestsOf tr"
| "requestsOf (e # tr) = requestsOf tr"

text \<open>
  A push of \<^verbatim>\<open>Replicate\<close> is accepted when the object's file opens, the request is
  built and the peer answers 2xx or 409.
\<close>

definition pushAccepted :: "Env \<Rightarrow> repObject \<Rightarrow> Device \<Rightarrow> bool" where
  "pushAccepted env ro node =
     (OpenOk env (Path ro) \<and> NewRequestOk env ''PUT'' (URL (putRequest env ro node)) \<and>
      (case Do env (putRequest env ro node) of
         None \<Rightarrow> False
       | Some resp \<Rightarrow> StatusCode resp div 100 = 2 \<or> StatusCode resp = 409))"

text \<open>
  What \<^verbatim>\<open>GetObjectsToReplicate\<close> sends for a row: the row with the path the index
  database builds for it, when its metadata decodes and the path can be built. A local
  row is unmatched when it is outside the nursery and no remote row has its hash,
  timestamp, nursery flag and deletion flag.
\<close>

definition sentItem :: "Env \<Rightarrow> IndexDBItem \<Rightarrow> IndexDBItem option" where
  "sentItem env item =
     (case Unmarshal env (Metabytes item) of
        None \<Rightarrow> None
      | Some md \<Rightarrow>
          (case WholeObjectPath env (Hash item) (Shard item) (Timestamp item) (Nursery item) of
             None \<Rightarrow> None
           | Some p \<Rightarrow> Some (item\<lparr>Path := p\<rparr>)))"

definition unmatched :: "IndexDBItem list \<Rightarrow> IndexDBItem \<Rightarrow> bool" where
  "unmatched remoteItems item =
     (\<not> Nursery item \<and> \<not> list_ex (\<lambda>r. sameVersion r item) remoteItems)"

section \<open>Example configurations\<close>

text \<open>
  A ring with three primaries for partition 7 and a fourth device that is a handoff
  location, one nursery row of a replicated object, and peers that answer by request.
\<close>

definition dev1 :: Device where
  "dev1 = \<lparr>Id_dev = 1, Ip = ''10.0.0.1'', Port = 6000, Device = ''sda'', Scheme = ''http'',
            ReplicationIp = ''10.0.1.1'', ReplicationPort = 6500\<rparr>"

definition dev2 :: Device where
  "dev2 = \<lparr>Id_dev = 2, Ip = ''10.0.0.2'', Port = 6000, Device = ''sdb'', Scheme = ''http'',
            ReplicationIp = ''10.0.1.2'', ReplicationPort = 6500\<rparr>"

definition dev3 :: Device where
  "dev3 = \<lparr>Id_dev = 3, Ip = ''10.0.0.3'', Port = 6000, Device = ''sdc'', Scheme = ''http'',
            ReplicationIp = ''10.0.1.3'', ReplicationPort = 6500\<rparr>"

definition dev4 :: Device where
  "dev4 = \<lparr>Id_dev = 4, Ip = ''10.0.0.4'', Port = 6000, Device = ''sdd'', Scheme = ''http'',
            ReplicationIp = ''10.0.1.4'', ReplicationPort = 6500\<rparr>"

definition exRing :: Ring where
  "exRing =
     \<lparr>PartitionForHash = (\<lambda>h. Inr 7),
      GetNodes = (\<lambda>p. if p = 7 then [dev1, dev2, dev3] else []),
      ReplicaCount = 3,
      GetJobNodes = (\<lambda>p localDevice.
         if localDevice = 4 then ([dev1, dev2, dev3], True)
         else (filter (\<lambda>d. Id_dev d \<noteq> localDevice) [dev1, dev2, dev3], False))\<rparr>"

definition failRing :: Ring where
  "failRing = exRing\<lparr>PartitionForHash := (\<lambda>h. Inl RingError)\<rparr>"

definition exMeta :: "string \<rightharpoonup> string" where
  "exMeta = [''X-Timestamp'' \<mapsto> ''100'', ''name'' \<mapsto> ''/a/c/o'', ''Content-Length'' \<mapsto> ''3'']"

definition exRow :: IndexDBItem where
  "exRow = \<lparr>Hash = ''abc'', Shard = 0, Timestamp = 100, Nursery = True, Deletion = False,
             Metahash = ''mh'', Metabytes = ''{}'', Path = ''/srv/abc'', Restabilize = False\<rparr>"

definition exDB :: IndexDB where
  "exDB = \<lparr>rows = [(''abc'', 0) \<mapsto> exRow], reachable = True\<rparr>"

definition okReply :: "Request \<Rightarrow> Response option" where
  "okReply req =
     (if Method req = ''HEAD''
      then Some \<lparr>StatusCode = 200, RespHeader = [''X-Timestamp'' \<mapsto> ''100''], Body = None\<rparr>
      else Some \<lparr>StatusCode = 201, RespHeader = Map.empty, Body = Some ''[]''\<rparr>)"

definition oneMissingReply :: "Request \<Rightarrow> Response option" where
  "oneMissingReply req =
     (if Method req = ''HEAD'' \<and> URL req = ''http://10.0.0.3:6000/sdc/7/a/c/o''
      then Some \<lparr>StatusCode = 404, RespHeader = Map.empty, Body = None\<rparr>
      else okReply req)"

definition exEnv :: "(Request \<Rightarrow> Response option) \<Rightarrow> IndexDBItem list \<Rightarrow> Env" where
  "exEnv reply remote =
     \<lparr>Do = reply, NewRequestOk = (\<lambda>m u. True), OpenOk = (\<lambda>p. True), Stat = (\<lambda>p. Some 5),
      ParseInt = (\<lambda>s. if s = ''3'' then Some 3 else None),
      ParseDate = (\<lambda>s. if s = ''100'' then Some 100 else None),
      Urlencode = (\<lambda>s. s),
      Unmarshal = (\<lambda>b. if b = ''{}'' then Some exMeta else None),
      Marshal = (\<lambda>m. ''{}''), Digest = (\<lambda>m. ''mh''),
      WholeObjectPath = (\<lambda>h s t n. Some (''/srv/'' @ h)),
      UnmarshalItems = (\<lambda>b. remote),
      ObjHash = (\<lambda>vars prefix suffix. ''abc''),
      UUID = showNat,
      ecShardLength = (\<lambda>contentLength dataShards. contentLength div dataShards),
      rand = (\<lambda>k. 0)\<rparr>"

definition envAgree :: Env where
  "envAgree = exEnv okReply []"

definition envOneMissing :: Env where
  "envOneMissing = exEnv oneMissingReply []"

definition exHandle :: "IndexDBItem list \<Rightarrow> IndexDBHandle" where
  "exHandle items =
     \<lparr>Lookup = (\<lambda>h s d. if h = ''abc'' then Inr (Some exRow) else Inr None),
      RingPartRange = (\<lambda>p. (''0'', ''g'')),
      List_idb = (\<lambda>start stop marker limit. (items, None)),
      ListObjectsToStabilize = Inr items\<rparr>"

definition exEngine :: "IndexDBItem list \<Rightarrow> repEngine" where
  "exEngine items =
     \<lparr>hashPathPrefix_re = [], hashPathSuffix_re = [], reserve_re = 0, policy_re = 0,
      ring_re = exRing, getDB_re = (\<lambda>d. Inr (exHandle items))\<rparr>"

definition exEcEngine :: "IndexDBItem list \<Rightarrow> ecEngine" where
  "exEcEngine items =
     \<lparr>hashPathPrefix_ec = [], hashPathSuffix_ec = [], reserve_ec = 0, policy_ec = 1,
      ring_ec = exRing, getDB_ec = (\<lambda>d. Inr (exHandle items)),
      dataShards_ec = 2, parityShards_ec = 1, chunkSize_ec = 1048576, nurseryReplicas_ec = 3,
      shardAny = - 1\<rparr>"

definition exObject :: repObject where
  "exObject = mkRepObject (exEngine []) exRow exMeta ''tx''"

definition exTombstone :: repObject where
  "exTombstone = mkRepObject (exEngine []) (exRow\<lparr>Deletion := True\<rparr>) exMeta ''tx''"

definition exJob :: PriorityRepJob where
  "exJob = \<lparr>Partition = 7, FromDevice = dev1, ToDevice = dev2, Policy = 0\<rparr>"

definition exRestabTombstone :: repObject where
  "exRestabTombstone =
     mkRepObject (exEngine []) (exRow\<lparr>Deletion := True, Restabilize := True\<rparr>) exMeta ''tx''"

definition exStable :: repObject where
  "exStable = mkRepObject (exEngine []) (exRow\<lparr>Nursery := False\<rparr>) exMeta ''tx''"

definition exStableBadRing :: repObject where
  "exStableBadRing = exStable\<lparr>ring := failRing\<rparr>"

definition exStableHandle :: IndexDBHandle where
  "exStableHandle = (exHandle [])\<lparr>Lookup := (\<lambda>h s d. Inr (Some (exRow\<lparr>Nursery := False\<rparr>)))\<rparr>"

definition exEcStableEngine :: ecEngine where
  "exEcStableEngine = (exEcEngine [])\<lparr>getDB_ec := (\<lambda>d. Inr exStableHandle)\<rparr>"

definition rowA :: IndexDBItem where
  "rowA = exRow\<lparr>Nursery := False\<rparr>"

definition rowA1 :: IndexDBItem where
  "rowA1 = exRow\<lparr>Shard := 1, Nursery := False\<rparr>"

definition rowB :: IndexDBItem where
  "rowB = exRow\<lparr>Hash := ''abd'', Nursery := False\<rparr>"

definition rowN :: IndexDBItem where
  "rowN = exRow\<lparr>Hash := ''abe''\<rparr>"

definition remoteB :: IndexDBItem where
  "remoteB = exRow\<lparr>Hash := ''abd'', Timestamp := 90, Nursery := False\<rparr>"

definition remoteTomb :: IndexDBItem where
  "remoteTomb = exRow\<lparr>Timestamp := 90, Nursery := False, Deletion := True\<rparr>"

text \<open>
  The rings of \<^verbatim>\<open>TestGetPartMoveJobs\<close>: a fake ring answers \<^verbatim>\<open>GetNodes\<close> from a
  mapping of partitions to device ids.
\<close>

definition testDevice :: "int \<Rightarrow> Device" where
  "testDevice p = \<lparr>Id_dev = p, Ip = ''127.0.0.1'', Port = p, Device = ''drive'' @ showInt p,
                    Scheme = [], ReplicationIp = [], ReplicationPort = 0\<rparr>"

definition testRing :: "(64 word \<Rightarrow> int list) \<Rightarrow> Ring" where
  "testRing mapping =
     \<lparr>PartitionForHash = (\<lambda>h. Inr 0),
      GetNodes = (\<lambda>p. map testDevice (mapping p)),
      ReplicaCount = 0,
      GetJobNodes = (\<lambda>p localDevice.
         if localDevice = 0
         then ([\<lparr>Id_dev = 1, Ip = ''127.0.0.1'', Port = 1, Device = ''drive1'', Scheme = [],
                  ReplicationIp = [], ReplicationPort = 0\<rparr>,
                \<lparr>Id_dev = 2, Ip = ''127.0.0.1'', Port = 1, Device = ''drive2'', Scheme = [],
                  ReplicationIp = [], ReplicationPort = 0\<rparr>], True)
         else ([\<lparr>Id_dev = localDevice mod 2 + 1, Ip = ''127.0.0.1'', Port = 1,
                  Device = ''drive'' @ showInt (localDevice mod 2 + 1), Scheme = [],
                  ReplicationIp = [], ReplicationPort = 0\<rparr>], False))\<rparr>"

definition oldMapping :: "64 word \<Rightarrow> int list" where
  "oldMapping p = (if p = 0 then [1, 2, 3, 4, 5] else if p = 1 then [6, 7, 8, 9, 10] else [])"

definition newMapping :: "64 word \<Rightarrow> int list" where
  "newMapping p = (if p = 0 then [6, 2, 3, 4, 5] else if p = 1 then [6, 7, 8, 9, 11] else [])"

definition rowM :: IndexDBItem where
  "rowM = exRow\<lparr>Hash := ''abd''\<rparr>"

section \<open>Properties of the traces\<close>

lemma replicateCalls_append: "replicateCalls (xs @ ys) = replicateCalls xs @ replicateCalls ys"
  by (induction xs rule: replicateCalls.induct) auto

lemma replicateCalls_heads: "replicateCalls (map (\<lambda>n. EvDo (f n)) ns) = []"
  by (induction ns) auto

lemma setStabilizedCalls_append:
  "setStabilizedCalls (xs @ ys) = setStabilizedCalls xs + setStabilizedCalls ys"
  by (induction xs rule: setStabilizedCalls.induct) auto

lemma setStabilizedCalls_heads: "setStabilizedCalls (map (\<lambda>n. EvDo (f n)) ns) = 0"
  by (induction ns) auto

lemma requestsOf_append: "requestsOf (xs @ ys) = requestsOf xs @ requestsOf ys"
  by (induction xs rule: requestsOf.induct) auto

lemma requestsOf_map: "requestsOf (map (\<lambda>n. EvDo (f n)) ns) = map f ns"
  by (induction ns) auto

section \<open>The index database: matching rows\<close>

lemma idb_Remove_matching:
  assumes "reachable db" "rows db (h, s) = Some row"
    and "Timestamp row = t" "Nursery row = n" "Metahash row = m"
  shows "idb_Remove db h s t n m = (Inr 1, db\<lparr>rows := (rows db)((h, s) := None)\<rparr>)"
  using assms by (simp add: idb_Remove_def)

lemma idb_SetStabilized_matching:
  assumes "reachable db" "rows db (h, s) = Some row" "Timestamp row = t"
  shows "idb_SetStabilized db h s t flag = (None, db\<lparr>rows := (rows db)((h, s) \<mapsto> row\<lparr>Nursery := False\<rparr>)\<rparr>)"
  using assms by (simp add: idb_SetStabilized_def)

section \<open>The loops over the primaries\<close>

lemma isStable_loop_run:
  assumes "\<forall>n\<in>set (peers dev nodes). NewRequestOk env ''HEAD'' (headURL env ro part n)"
  shows "isStable_loop env ro dev part nodes g nf tr =
    (Inr (g + of_nat (length (filter (\<lambda>n. sameDevice n dev \<or> agrees (Do env (headRequest env ro part n)) ro) nodes)),
          nf @ filter (\<lambda>n. \<not> agrees (Do env (headRequest env ro part n)) ro) (peers dev nodes)),
     tr @ map (\<lambda>n. EvDo (headRequest env ro part n)) (peers dev nodes))"
  using assms by (induction nodes arbitrary: g nf tr) (auto simp: peers_def)

lemma isStable_run:
  assumes "\<not> Deletion ro" "PartitionForHash (ring ro) (Hash ro) = Inr part"
    and "\<forall>n\<in>set (peers dev (GetNodes (ring ro) part)). NewRequestOk env ''HEAD'' (headURL env ro part n)"
  shows "isStable env ro dev =
    (Inr (of_nat (length (filter (\<lambda>n. sameDevice n dev \<or> agrees (Do env (headRequest env ro part n)) ro) (GetNodes (ring ro) part))) = ReplicaCount (ring ro),
          filter (\<lambda>n. \<not> agrees (Do env (headRequest env ro part n)) ro) (peers dev (GetNodes (ring ro) part))),
     map (\<lambda>n. EvDo (headRequest env ro part n)) (peers dev (GetNodes (ring ro) part)))"
  using assms by (simp add: isStable_def isStable_loop_run)

lemma stabilizeDelete_loop_run:
  assumes "\<forall>n\<in>set (peers dev nodes). NewRequestOk env ''DELETE'' (URL (deleteRequest ro n))"
  shows "stabilizeDelete_loop env ro dev nodes successes tr =
    (Inr (successes + int (length (filter (\<lambda>n. deleteAcked (Do env (deleteRequest ro n))) (peers dev nodes)))),
     tr @ map (\<lambda>n. EvDo (deleteRequest ro n)) (peers dev nodes))"
  using assms by (induction nodes arbitrary: successes tr) (auto simp: peers_def)

lemma Replicate_calls:
  "replicateCalls (snd (snd (Replicate env ro job db))) = [] \<and>
   setStabilizedCalls (snd (snd (Replicate env ro job db))) = 0"
  by (simp add: Replicate_def Let_def split: option.splits prod.splits)

lemma Replicate_db:
  "fst (snd (Replicate env ro job db)) =
     (if snd (GetJobNodes (ring ro) (Partition job) (Id_dev (FromDevice job))) \<and>
         pushAccepted env ro (ToDevice job)
      then snd (idb_Remove db (Hash ro) (Shard ro) (Timestamp ro) (Nursery ro) (Metahash ro))
      else db)"
  by (auto simp: Replicate_def pushAccepted_def Let_def split: option.splits prod.splits)

section \<open>Evaluating the examples\<close>

lemma ex_show:
  "showInt 6000 = ''6000''" "showInt 6500 = ''6500''" "showInt 0 = ''0''" "showNat 7 = ''7''"
  "showNat (unat (7 :: 64 word)) = ''7''"
  by (simp_all add: showInt_def showNat.simps char_of_def bit_Suc_0_iff)

lemmas ex_defs = exObject_def exTombstone_def mkRepObject_def exEngine_def exRing_def exRow_def exMeta_def
  exDB_def envAgree_def envOneMissing_def exEnv_def okReply_def oneMissingReply_def
  dev1_def dev2_def dev3_def dev4_def
  peers_def sameDevice_def agrees_def headRequest_def headURL_def mapIndex_def roShard_def
  ex_show
  exRestabTombstone_def exStable_def exStableBadRing_def failRing_def
  deleteRequest_def postRequest_def putRequest_def repObjURL_def peerHeaders_def
  deleteAcked_def postAcked_def pushAccepted_def ContentLength_ro_def

section \<open>Claims\<close>

text \<open>
  C2. A nursery object that is neither a deletion nor marked for restabilization, whose
  other primaries all report the object's own \<^verbatim>\<open>X-Timestamp\<close> while the ring's replica
  count is the number of primaries: \<^verbatim>\<open>Stabilize\<close> sends the HEAD requests and nothing
  else, makes no replicate call, and then clears the nursery flag of the row, or, when
  the local device is a handoff for the partition, removes the row instead.
\<close>

theorem stabilize_all_agree:
  assumes nursery: "Nursery ro" "\<not> Deletion ro" "\<not> Restabilize ro"
    and part: "PartitionForHash (ring ro) (Hash ro) = Inr part"
    and agree: "\<forall>n\<in>set (peers dev (GetNodes (ring ro) part)).
        NewRequestOk env ''HEAD'' (headURL env ro part n) \<and>
        agrees (Do env (headRequest env ro part n)) ro"
    and count: "ReplicaCount (ring ro) = of_nat (length (GetNodes (ring ro) part))"
    and row: "reachable db" "rows db (Hash ro, Shard ro) = Some row" "Shard ro = roShard"
        "Timestamp row = Timestamp ro" "Nursery row = Nursery ro" "Metahash row = Metahash ro"
  shows "Stabilize env ro dev db =
     (if snd (GetJobNodes (ring ro) part (Id_dev dev))
      then (None, db\<lparr>rows := (rows db)((Hash ro, Shard ro) := None)\<rparr>,
            map (\<lambda>n. EvDo (headRequest env ro part n)) (peers dev (GetNodes (ring ro) part)) @
            [EvRemove (Hash ro) (Shard ro) (Timestamp ro) (Nursery ro) (Metahash ro)])
      else (None, db\<lparr>rows := (rows db)((Hash ro, Shard ro) \<mapsto> row\<lparr>Nursery := False\<rparr>)\<rparr>,
            map (\<lambda>n. EvDo (headRequest env ro part n)) (peers dev (GetNodes (ring ro) part)) @
            [EvSetStabilized (Hash ro) roShard (Timestamp ro) True])) \<and>
     replicateCalls (snd (snd (Stabilize env ro dev db))) = []"
proof -
  let ?nodes = "GetNodes (ring ro) part"
  have ok: "\<forall>n\<in>set (peers dev ?nodes). NewRequestOk env ''HEAD'' (headURL env ro part n)"
    using agree by blast
  have all: "filter (\<lambda>n. sameDevice n dev \<or> agrees (Do env (headRequest env ro part n)) ro) ?nodes = ?nodes"
    using agree by (auto simp: peers_def intro!: filter_True)
  have none: "filter (\<lambda>n. \<not> agrees (Do env (headRequest env ro part n)) ro) (peers dev ?nodes) = []"
    using agree by (auto simp: filter_empty_conv)
  have st: "isStable env ro dev =
      (Inr (True, []), map (\<lambda>n. EvDo (headRequest env ro part n)) (peers dev ?nodes))"
    using isStable_run [OF nursery(2) part ok] all none count by simp
  have eq: "Stabilize env ro dev db =
     (if snd (GetJobNodes (ring ro) part (Id_dev dev))
      then (None, db\<lparr>rows := (rows db)((Hash ro, Shard ro) := None)\<rparr>,
            map (\<lambda>n. EvDo (headRequest env ro part n)) (peers dev (GetNodes (ring ro) part)) @
            [EvRemove (Hash ro) (Shard ro) (Timestamp ro) (Nursery ro) (Metahash ro)])
      else (None, db\<lparr>rows := (rows db)((Hash ro, Shard ro) \<mapsto> row\<lparr>Nursery := False\<rparr>)\<rparr>,
            map (\<lambda>n. EvDo (headRequest env ro part n)) (peers dev (GetNodes (ring ro) part)) @
            [EvSetStabilized (Hash ro) roShard (Timestamp ro) True]))"
  proof -
    have rm: "idb_Remove db (Hash ro) (Shard ro) (Timestamp ro) (Nursery ro) (Metahash ro) =
        (Inr 1, db\<lparr>rows := (rows db)((Hash ro, Shard ro) := None)\<rparr>)"
      by (rule idb_Remove_matching [OF row(1,2,4,5,6)])
    have ss: "idb_SetStabilized db (Hash ro) roShard (Timestamp ro) True =
        (None, db\<lparr>rows := (rows db)((Hash ro, Shard ro) \<mapsto> row\<lparr>Nursery := False\<rparr>)\<rparr>)"
      using idb_SetStabilized_matching [OF row(1,2,4)] row(3) by simp
    show ?thesis
      unfolding Stabilize_def st rm ss using nursery part by simp
  qed
  show ?thesis
    by (simp add: eq replicateCalls_append replicateCalls_heads)
qed

theorem stabilize_all_agree_witness:
  "fst (Stabilize envAgree exObject dev1 exDB) = None \<and>
   rows (fst (snd (Stabilize envAgree exObject dev1 exDB))) (''abc'', 0) = Some (exRow\<lparr>Nursery := False\<rparr>) \<and>
   replicateCalls (snd (snd (Stabilize envAgree exObject dev1 exDB))) = [] \<and>
   fst (Stabilize envAgree exObject dev4 exDB) = None \<and>
   rows (fst (snd (Stabilize envAgree exObject dev4 exDB))) (''abc'', 0) = None \<and>
   replicateCalls (snd (snd (Stabilize envAgree exObject dev4 exDB))) = []"
  using stabilize_all_agree [of exObject 7 dev1 envAgree exDB exRow]
    stabilize_all_agree [of exObject 7 dev4 envAgree exDB exRow]
  by (simp add: ex_defs)

text \<open>
  C1. A commit whose timestamp is not above the timestamp stored for the key
  \<open>(hash, shard)\<close> is rejected as a conflict and changes nothing; a commit that changes
  the database over a stored row has a strictly greater timestamp, and such a commit
  installs its row.
\<close>

theorem idb_Commit_timestamp_order:
  shows "(reachable db \<and> rows db (Hash item, Shard item) = Some stored \<and>
          Timestamp item \<le> Timestamp stored \<longrightarrow> idb_Commit db item = (Some ConflictError, db)) \<and>
     (rows db (Hash item, Shard item) = Some stored \<and> Timestamp item \<le> Timestamp stored \<longrightarrow>
          snd (idb_Commit db item) = db \<and> fst (idb_Commit db item) \<noteq> None) \<and>
     (reachable db \<and> rows db (Hash item, Shard item) = Some stored \<and>
          Timestamp stored < Timestamp item \<longrightarrow>
          idb_Commit db item = (None, db\<lparr>rows := (rows db)((Hash item, Shard item) \<mapsto> item)\<rparr>)) \<and>
     (snd (idb_Commit db item) \<noteq> db \<and> rows db (Hash item, Shard item) = Some stored \<longrightarrow>
          Timestamp stored < Timestamp item)"
  by (auto simp: idb_Commit_def split: option.splits)

theorem idb_Commit_timestamp_order_witness:
  "idb_Commit exDB exRow = (Some ConflictError, exDB) \<and>
   idb_Commit exDB (exRow\<lparr>Timestamp := 99\<rparr>) = (Some ConflictError, exDB) \<and>
   idb_Commit exDB (exRow\<lparr>Timestamp := 101\<rparr>) =
     (None, exDB\<lparr>rows := (rows exDB)((''abc'', 0) \<mapsto> exRow\<lparr>Timestamp := 101\<rparr>)\<rparr>)"
  using idb_Commit_timestamp_order [of exDB exRow exRow]
    idb_Commit_timestamp_order [of exDB "exRow\<lparr>Timestamp := 99\<rparr>" exRow]
    idb_Commit_timestamp_order [of exDB "exRow\<lparr>Timestamp := 101\<rparr>" exRow]
  by (simp add: exDB_def exRow_def)

text \<open>
  C7. With no \<^verbatim>\<open>X-Timestamp\<close> key in the metadata, \<^verbatim>\<open>Commit\<close>, \<^verbatim>\<open>Delete\<close> and
  \<^verbatim>\<open>CommitMetadata\<close> (and the \<^verbatim>\<open>commit\<close> they share) fail with the validation
  error, call no operation of the index database (the trace is empty) and leave the
  object and the database as they were.
\<close>

theorem commit_requires_timestamp:
  assumes "md ''X-Timestamp'' = None"
  shows "Commit env ro md db = (Some NoTimestampInMetadata, ro, db, []) \<and>
     Delete env ro md db = (Some NoTimestampInMetadata, ro, db, []) \<and>
     CommitMetadata env ro md db = (Some NoTimestampInMetadata, ro, db, []) \<and>
     commit env ro md meth nursery db = (Some NoTimestampInMetadata, ro, db, [])"
  using assms by (simp add: Commit_def Delete_def CommitMetadata_def commit_def)

theorem commit_requires_timestamp_witness:
  "Commit envAgree exObject [''Content-Length'' \<mapsto> ''3''] exDB =
     (Some NoTimestampInMetadata, exObject, exDB, []) \<and>
   Delete envAgree exObject [''Content-Length'' \<mapsto> ''3''] exDB =
     (Some NoTimestampInMetadata, exObject, exDB, []) \<and>
   CommitMetadata envAgree exObject [''Content-Length'' \<mapsto> ''3''] exDB =
     (Some NoTimestampInMetadata, exObject, exDB, [])"
  using commit_requires_timestamp [of "[''Content-Length'' \<mapsto> ''3'']" envAgree exObject exDB]
  by simp

text \<open>
  C10, as the code has it. For an object that is neither in the nursery nor marked for
  restabilization, \<^verbatim>\<open>Stabilize\<close> sends nothing and leaves the database as it was; it
  returns nil when the ring maps the object's hash to a partition, and the ring's error
  when it does not.
\<close>

theorem stabilize_not_nursery:
  assumes "\<not> Nursery ro" "\<not> Restabilize ro"
  shows "Stabilize env ro dev db =
     (case PartitionForHash (ring ro) (Hash ro) of
        Inl err \<Rightarrow> (Some err, db, [])
      | Inr part \<Rightarrow> (None, db, []))"
  using assms by (simp add: Stabilize_def split: sum.splits)

theorem stabilize_not_nursery_witness:
  "Stabilize envAgree exStable dev1 exDB = (None, exDB, [])"
  using stabilize_not_nursery [of exStable envAgree dev1 exDB]
  by (simp add: ex_defs)

text \<open>
  C10 as stated fails: with a ring that cannot map the hash, \<^verbatim>\<open>Stabilize\<close> on an object
  outside the nursery returns the ring's error, not nil.
\<close>

theorem stabilize_not_nursery_ring_error_counterexample:
  "\<not> Nursery exStableBadRing \<and> \<not> Restabilize exStableBadRing \<and>
   Stabilize envAgree exStableBadRing dev1 exDB = (Some RingError, exDB, [])"
  by (simp add: ex_defs Stabilize_def)

text \<open>
  C3, as the code has it. A nursery object that is neither a deletion nor marked for
  restabilization, with replica count 3, three primaries and exactly one peer that does
  not agree or cannot be reached: \<^verbatim>\<open>Stabilize\<close> makes exactly one replicate call, to
  that peer, never calls \<^verbatim>\<open>SetStabilized\<close> and returns an error. The database is left
  as it was, unless the local device is a handoff for the partition and the peer accepts
  the push: then \<^verbatim>\<open>Replicate\<close> removes the local row.
\<close>

theorem stabilize_one_missing:
  assumes nursery: "Nursery ro" "\<not> Deletion ro" "\<not> Restabilize ro"
    and part: "PartitionForHash (ring ro) (Hash ro) = Inr part"
    and ok: "\<forall>n\<in>set (peers dev (GetNodes (ring ro) part)).
        NewRequestOk env ''HEAD'' (headURL env ro part n)"
    and count: "ReplicaCount (ring ro) = 3" "length (GetNodes (ring ro) part) = 3"
    and one: "filter (\<lambda>n. \<not> agrees (Do env (headRequest env ro part n)) ro)
        (peers dev (GetNodes (ring ro) part)) = [peer]"
  shows "replicateCalls (snd (snd (Stabilize env ro dev db))) =
       [\<lparr>Partition = part, FromDevice = dev, ToDevice = peer, Policy = policy ro\<rparr>] \<and>
     setStabilizedCalls (snd (snd (Stabilize env ro dev db))) = 0 \<and>
     fst (Stabilize env ro dev db) \<noteq> None \<and>
     fst (snd (Stabilize env ro dev db)) =
       (if snd (GetJobNodes (ring ro) part (Id_dev dev)) \<and> pushAccepted env ro peer
        then snd (idb_Remove db (Hash ro) (Shard ro) (Timestamp ro) (Nursery ro) (Metahash ro))
        else db)"
proof -
  let ?nodes = "GetNodes (ring ro) part"
  let ?good = "\<lambda>n. sameDevice n dev \<or> agrees (Do env (headRequest env ro part n)) ro"
  let ?job = "\<lparr>Partition = part, FromDevice = dev, ToDevice = peer, Policy = policy ro\<rparr>"
  let ?heads = "map (\<lambda>n. EvDo (headRequest env ro part n)) (peers dev ?nodes)"
  have "filter (\<lambda>n. \<not> ?good n) ?nodes =
      filter (\<lambda>n. \<not> agrees (Do env (headRequest env ro part n)) ro) (peers dev ?nodes)"
    by (auto simp: peers_def intro: filter_cong)
  then have "length (filter (\<lambda>n. \<not> ?good n) ?nodes) = 1"
    using one by simp
  moreover have "length (filter ?good ?nodes) + length (filter (\<lambda>n. \<not> ?good n) ?nodes) = length ?nodes"
    by (rule sum_length_filter_compl)
  ultimately have two: "length (filter ?good ?nodes) = 2"
    using count(2) by simp
  have st: "isStable env ro dev = (Inr (False, [peer]), ?heads)"
    using isStable_run [OF nursery(2) part ok] two one count(1) by simp
  obtain err db' tr' where rep: "Replicate env ro ?job db = (err, db', tr')"
    by (cases "Replicate env ro ?job db") auto
  have eq: "Stabilize env ro dev db =
      (Some (case err of None \<Rightarrow> CouldNotStabilize 1 | Some e \<Rightarrow> e), db', ?heads @ EvReplicate ?job # tr')"
    unfolding Stabilize_def st using nursery part rep
    by (simp split: option.splits)
  have calls: "replicateCalls tr' = []" "setStabilizedCalls tr' = 0"
    using Replicate_calls [of env ro ?job db] rep by simp_all
  have db': "db' = (if snd (GetJobNodes (ring ro) part (Id_dev dev)) \<and> pushAccepted env ro peer
        then snd (idb_Remove db (Hash ro) (Shard ro) (Timestamp ro) (Nursery ro) (Metahash ro))
        else db)"
    using Replicate_db [of env ro ?job db] rep by simp
  show ?thesis
    unfolding eq using calls db'
    by (simp add: replicateCalls_append replicateCalls_heads setStabilizedCalls_append
        setStabilizedCalls_heads)
qed

theorem stabilize_one_missing_witness:
  "replicateCalls (snd (snd (Stabilize envOneMissing exObject dev1 exDB))) =
     [\<lparr>Partition = 7, FromDevice = dev1, ToDevice = dev3, Policy = 0\<rparr>] \<and>
   setStabilizedCalls (snd (snd (Stabilize envOneMissing exObject dev1 exDB))) = 0 \<and>
   fst (Stabilize envOneMissing exObject dev1 exDB) \<noteq> None \<and>
   fst (snd (Stabilize envOneMissing exObject dev1 exDB)) = exDB"
  using stabilize_one_missing [of exObject 7 dev1 envOneMissing dev3 exDB]
  by (simp add: ex_defs)

lemma ex_isStable_handoff:
  "isStable envOneMissing exObject dev4 =
     (Inr (False, [dev3]),
      map (\<lambda>n. EvDo (headRequest envOneMissing exObject 7 n)) [dev1, dev2, dev3])"
  using isStable_run [of exObject 7 dev4 envOneMissing]
  by (simp add: ex_defs)

lemma ex_Replicate_handoff:
  "Replicate envOneMissing exObject
     \<lparr>Partition = 7, FromDevice = dev4, ToDevice = dev3, Policy = 0\<rparr> exDB =
     (None, exDB\<lparr>rows := (rows exDB)((''abc'', 0) := None)\<rparr>,
      [EvDo (putRequest envOneMissing exObject dev3), EvRemove ''abc'' 0 100 True ''mh''])"
  by (simp add: Replicate_def idb_Remove_def Let_def ex_defs)

text \<open>
  C3 as stated fails on a handoff device: two primaries agree, the third answers 404 and
  accepts the push, and the nursery row is gone from the local database afterwards.
\<close>

theorem stabilize_one_missing_handoff_counterexample:
  "Nursery exObject \<and> \<not> Deletion exObject \<and> \<not> Restabilize exObject \<and>
   ReplicaCount (ring exObject) = 3 \<and> GetNodes (ring exObject) 7 = [dev1, dev2, dev3] \<and>
   filter (\<lambda>n. \<not> agrees (Do envOneMissing (headRequest envOneMissing exObject 7 n)) exObject)
     (peers dev4 (GetNodes (ring exObject) 7)) = [dev3] \<and>
   rows exDB (''abc'', 0) = Some exRow \<and> Nursery exRow \<and>
   fst (Stabilize envOneMissing exObject dev4 exDB) = Some (CouldNotStabilize 1) \<and>
   rows (fst (snd (Stabilize envOneMissing exObject dev4 exDB))) (''abc'', 0) = None"
proof -
  have "Stabilize envOneMissing exObject dev4 exDB =
      (Some (CouldNotStabilize 1), exDB\<lparr>rows := (rows exDB)((''abc'', 0) := None)\<rparr>,
       map (\<lambda>n. EvDo (headRequest envOneMissing exObject 7 n)) [dev1, dev2, dev3] @
       [EvReplicate \<lparr>Partition = 7, FromDevice = dev4, ToDevice = dev3, Policy = 0\<rparr>,
        EvDo (putRequest envOneMissing exObject dev3), EvRemove ''abc'' 0 100 True ''mh''])"
    unfolding Stabilize_def ex_isStable_handoff
    using ex_Replicate_handoff
    by (simp add: exObject_def mkRepObject_def exEngine_def exRing_def exRow_def)
  moreover have "filter (\<lambda>n. \<not> agrees (Do envOneMissing (headRequest envOneMissing exObject 7 n)) exObject)
     (peers dev4 (GetNodes (ring exObject) 7)) = [dev3]"
    by (simp add: ex_defs)
  ultimately show ?thesis
    by (simp add: exObject_def mkRepObject_def exEngine_def exRing_def exRow_def exDB_def)
qed

text \<open>
  C4, as the code has it. For a nursery object with the deletion flag set and the
  restabilize flag clear, \<^verbatim>\<open>Stabilize\<close> sends one DELETE to every other primary of the
  partition and nothing else. It succeeds only if the acknowledgements (2xx, 409 or 404)
  number one less than the replica count; with that many it removes the local tombstone
  row, and with any other number it returns an error and leaves the database as it was.
\<close>

theorem stabilize_deletion:
  assumes flags: "Nursery ro" "Deletion ro" "\<not> Restabilize ro"
    and part: "PartitionForHash (ring ro) (Hash ro) = Inr part"
    and ok: "\<forall>n\<in>set (peers dev (GetNodes (ring ro) part)).
        NewRequestOk env ''DELETE'' (URL (deleteRequest ro n))"
    and count: "unat (ReplicaCount (ring ro)) = length (GetNodes (ring ro) part)"
    and acks: "acks = length (filter (\<lambda>n. deleteAcked (Do env (deleteRequest ro n)))
        (peers dev (GetNodes (ring ro) part)))"
  shows "Stabilize env ro dev db =
     (if acks + 1 \<noteq> unat (ReplicaCount (ring ro))
      then (Some (CouldNotStabilizeDelete (int acks) (int (unat (ReplicaCount (ring ro))) - 1)), db,
            map (\<lambda>n. EvDo (deleteRequest ro n)) (peers dev (GetNodes (ring ro) part)))
      else (case fst (idb_Remove db (Hash ro) (Shard ro) (Timestamp ro) (Nursery ro) (Metahash ro)) of
              Inl err \<Rightarrow> Some err | Inr n \<Rightarrow> None,
            snd (idb_Remove db (Hash ro) (Shard ro) (Timestamp ro) (Nursery ro) (Metahash ro)),
            map (\<lambda>n. EvDo (deleteRequest ro n)) (peers dev (GetNodes (ring ro) part)) @
            [EvRemove (Hash ro) (Shard ro) (Timestamp ro) (Nursery ro) (Metahash ro)])) \<and>
     requestsOf (snd (snd (Stabilize env ro dev db))) =
       map (deleteRequest ro) (peers dev (GetNodes (ring ro) part)) \<and>
     (fst (Stabilize env ro dev db) = None \<longrightarrow> acks = unat (ReplicaCount (ring ro)) - 1) \<and>
     (acks + 1 \<noteq> unat (ReplicaCount (ring ro)) \<longrightarrow>
        fst (Stabilize env ro dev db) \<noteq> None \<and> fst (snd (Stabilize env ro dev db)) = db) \<and>
     (acks + 1 = unat (ReplicaCount (ring ro)) \<and> reachable db \<and>
      rows db (Hash ro, Shard ro) = Some row \<and> Timestamp row = Timestamp ro \<and>
      Nursery row = Nursery ro \<and> Metahash row = Metahash ro \<longrightarrow>
        fst (Stabilize env ro dev db) = None \<and>
        rows (fst (snd (Stabilize env ro dev db))) (Hash ro, Shard ro) = None)"
proof -
  let ?nodes = "GetNodes (ring ro) part"
  let ?rm = "idb_Remove db (Hash ro) (Shard ro) (Timestamp ro) (Nursery ro) (Metahash ro)"
  let ?dels = "map (\<lambda>n. EvDo (deleteRequest ro n)) (peers dev ?nodes)"
  have loop: "stabilizeDelete_loop env ro dev ?nodes 0 [] = (Inr (int acks), ?dels)"
    using stabilizeDelete_loop_run [OF ok, of 0 "[]"] acks by simp
  have cmp: "(int acks + 1 \<noteq> int (length ?nodes)) = (acks + 1 \<noteq> length ?nodes)"
    by auto
  have sd: "stabilizeDelete env ro dev db =
     (if acks + 1 \<noteq> length ?nodes
      then (Some (CouldNotStabilizeDelete (int acks) (int (length ?nodes) - 1)), db, ?dels)
      else (case fst ?rm of Inl err \<Rightarrow> Some err | Inr n \<Rightarrow> None, snd ?rm,
            ?dels @ [EvRemove (Hash ro) (Shard ro) (Timestamp ro) (Nursery ro) (Metahash ro)]))"
    using part by (cases ?rm) (simp add: stabilizeDelete_def Let_def loop cmp)
  have eq: "Stabilize env ro dev db =
     (if acks + 1 \<noteq> length ?nodes
      then (Some (CouldNotStabilizeDelete (int acks) (int (length ?nodes) - 1)), db, ?dels)
      else (case fst ?rm of Inl err \<Rightarrow> Some err | Inr n \<Rightarrow> None, snd ?rm,
            ?dels @ [EvRemove (Hash ro) (Shard ro) (Timestamp ro) (Nursery ro) (Metahash ro)]))"
    using flags part sd by (simp add: Stabilize_def)
  have rm: "reachable db \<and> rows db (Hash ro, Shard ro) = Some row \<and> Timestamp row = Timestamp ro \<and>
      Nursery row = Nursery ro \<and> Metahash row = Metahash ro \<longrightarrow>
      ?rm = (Inr 1, db\<lparr>rows := (rows db)((Hash ro, Shard ro) := None)\<rparr>)"
    using idb_Remove_matching [of db "Hash ro" "Shard ro" row] by blast
  show ?thesis
    unfolding count eq using rm
    by (auto simp: requestsOf_append requestsOf_map comp_def)
qed

theorem stabilize_deletion_witness:
  "fst (Stabilize envAgree exTombstone dev1 exDB) = None \<and>
   requestsOf (snd (snd (Stabilize envAgree exTombstone dev1 exDB))) =
     [deleteRequest exTombstone dev2, deleteRequest exTombstone dev3] \<and>
   rows (fst (snd (Stabilize envAgree exTombstone dev1 exDB))) (''abc'', 0) = None"
proof -
  have flags: "Nursery exTombstone" "Deletion exTombstone" "\<not> Restabilize exTombstone"
    by (simp_all add: exTombstone_def mkRepObject_def exRow_def)
  have part: "PartitionForHash (ring exTombstone) (Hash exTombstone) = Inr 7"
    by (simp add: exTombstone_def mkRepObject_def exEngine_def exRing_def)
  have others: "peers dev1 (GetNodes (ring exTombstone) 7) = [dev2, dev3]"
    by (simp add: ex_defs)
  have ok: "\<forall>n\<in>set (peers dev1 (GetNodes (ring exTombstone) 7)).
      NewRequestOk envAgree ''DELETE'' (URL (deleteRequest exTombstone n))"
    by (simp add: envAgree_def exEnv_def)
  have count: "unat (ReplicaCount (ring exTombstone)) = length (GetNodes (ring exTombstone) 7)"
    by (simp add: exTombstone_def mkRepObject_def exEngine_def exRing_def)
  have acked: "filter (\<lambda>n. deleteAcked (Do envAgree (deleteRequest exTombstone n))) [dev2, dev3] =
      [dev2, dev3]"
    by (simp add: deleteAcked_def envAgree_def exEnv_def okReply_def deleteRequest_def)
  have acks: "2 = length (filter (\<lambda>n. deleteAcked (Do envAgree (deleteRequest exTombstone n)))
      (peers dev1 (GetNodes (ring exTombstone) 7)))"
    unfolding others acked by simp
  have row: "2 + 1 = unat (ReplicaCount (ring exTombstone)) \<and> reachable exDB \<and>
      rows exDB (Hash exTombstone, Shard exTombstone) = Some exRow \<and>
      Timestamp exRow = Timestamp exTombstone \<and> Nursery exRow = Nursery exTombstone \<and>
      Metahash exRow = Metahash exTombstone"
    by (simp add: exTombstone_def mkRepObject_def exEngine_def exRing_def exRow_def exDB_def)
  have key: "(Hash exTombstone, Shard exTombstone) = (''abc'', 0)"
    by (simp add: exTombstone_def mkRepObject_def exRow_def)
  note w = stabilize_deletion [OF flags part ok count acks, of exDB exRow]
  from w have "requestsOf (snd (snd (Stabilize envAgree exTombstone dev1 exDB))) =
      map (deleteRequest exTombstone) (peers dev1 (GetNodes (ring exTombstone) 7))"
    by (elim conjE)
  moreover from w row have "fst (Stabilize envAgree exTombstone dev1 exDB) = None \<and>
      rows (fst (snd (Stabilize envAgree exTombstone dev1 exDB))) (Hash exTombstone, Shard exTombstone) = None"
    by (elim conjE) blast
  ultimately show ?thesis
    unfolding others key by simp
qed

lemma ex_restabilize_loop:
  "restabilize_loop envAgree exRestabTombstone dev1 [dev1, dev2, dev3] 0 [] =
     (Inr 2, [EvDo (postRequest exRestabTombstone dev2), EvDo (postRequest exRestabTombstone dev3)])"
  by (simp add: sameDevice_def dev1_def dev2_def dev3_def envAgree_def exEnv_def okReply_def
      postAcked_def postRequest_def)

text \<open>
  C4 as stated fails when the restabilize flag is set as well: \<^verbatim>\<open>Stabilize\<close> takes the
  restabilize path, sends POST requests instead of DELETE, and clears the nursery flag
  of the tombstone row instead of removing it.
\<close>

theorem stabilize_deletion_restabilize_counterexample:
  "Nursery exRestabTombstone \<and> Deletion exRestabTombstone \<and>
   map Method (requestsOf (snd (snd (Stabilize envAgree exRestabTombstone dev1 exDB)))) =
     [''POST'', ''POST''] \<and>
   fst (Stabilize envAgree exRestabTombstone dev1 exDB) = None \<and>
   rows (fst (snd (Stabilize envAgree exRestabTombstone dev1 exDB))) (''abc'', 0) =
     Some (exRow\<lparr>Nursery := False\<rparr>)"
proof -
  have flags: "Nursery exRestabTombstone" "Deletion exRestabTombstone" "Restabilize exRestabTombstone"
    by (simp_all add: exRestabTombstone_def mkRepObject_def exRow_def)
  have part: "PartitionForHash (ring exRestabTombstone) (Hash exRestabTombstone) = Inr 7"
    by (simp add: exRestabTombstone_def mkRepObject_def exEngine_def exRing_def)
  have nodes: "GetNodes (ring exRestabTombstone) 7 = [dev1, dev2, dev3]"
    by (simp add: exRestabTombstone_def mkRepObject_def exEngine_def exRing_def)
  have ss: "idb_SetStabilized exDB (Hash exRestabTombstone) (Shard exRestabTombstone)
      (Timestamp exRestabTombstone) False =
      (None, exDB\<lparr>rows := (rows exDB)((''abc'', 0) \<mapsto> exRow\<lparr>Nursery := False\<rparr>)\<rparr>)"
    by (simp add: idb_SetStabilized_def exRestabTombstone_def mkRepObject_def exRow_def exDB_def)
  have "restabilize envAgree exRestabTombstone dev1 exDB =
      (None, exDB\<lparr>rows := (rows exDB)((''abc'', 0) \<mapsto> exRow\<lparr>Nursery := False\<rparr>)\<rparr>,
       [EvDo (postRequest exRestabTombstone dev2), EvDo (postRequest exRestabTombstone dev3),
        EvSetStabilized (Hash exRestabTombstone) (Shard exRestabTombstone)
          (Timestamp exRestabTombstone) False])"
    unfolding restabilize_def Let_def part sum.case nodes ex_restabilize_loop ss by simp
  then have "Stabilize envAgree exRestabTombstone dev1 exDB =
      (None, exDB\<lparr>rows := (rows exDB)((''abc'', 0) \<mapsto> exRow\<lparr>Nursery := False\<rparr>)\<rparr>,
       [EvDo (postRequest exRestabTombstone dev2), EvDo (postRequest exRestabTombstone dev3),
        EvSetStabilized (Hash exRestabTombstone) (Shard exRestabTombstone)
          (Timestamp exRestabTombstone) False])"
    unfolding Stabilize_def part sum.case using flags by simp
  then show ?thesis
    using flags by (simp add: postRequest_def)
qed

text \<open>
  C6. When \<^verbatim>\<open>New\<close> finds the row of a live object whose metadata decodes, whose file
  can be examined and whose \<^verbatim>\<open>Content-Length\<close> parses, a file size that differs from the
  declared length makes it quarantine the object and fail at once: the length is the
  \<^verbatim>\<open>Content-Length\<close> for the replication engine and for a nursery copy of the
  erasure-code engine, and \<^verbatim>\<open>ecShardLength(contentLength, dataShards)\<close> for a stable
  shard of the erasure-code engine.
\<close>

theorem New_quarantines_size_mismatch:
  assumes "Unmarshal env (Metabytes item) = Some md" "\<not> Deletion item"
    and "Stat env (Path item) = Some fsize"
    and "ParseInt env (mapIndex md ''Content-Length'') = Some contentLength"
  shows "(getDB_re re (mapIndex vars ''device'') = Inr idb \<and>
      Lookup idb (ObjHash env vars (hashPathPrefix_re re) (hashPathSuffix_re re)) roShard False =
        Inr (Some item) \<and>
      fsize \<noteq> contentLength \<longrightarrow>
        New_rep env re vars needData =
          (Inl (FileSizeMismatch fsize contentLength), [EvQuarantine item])) \<and>
     (getDB_ec f (mapIndex vars ''device'') = Inr idb \<and>
      Lookup idb (ObjHash env vars (hashPathPrefix_ec f) (hashPathSuffix_ec f)) (shardAny f) False =
        Inr (Some item) \<and>
      Nursery item \<and> fsize \<noteq> contentLength \<longrightarrow>
        New_ec env f vars needData =
          (Inl (FileSizeMismatch fsize contentLength), [EvQuarantine item])) \<and>
     (getDB_ec f (mapIndex vars ''device'') = Inr idb \<and>
      Lookup idb (ObjHash env vars (hashPathPrefix_ec f) (hashPathSuffix_ec f)) (shardAny f) False =
        Inr (Some item) \<and>
      \<not> Nursery item \<and> fsize \<noteq> ecShardLength env contentLength (dataShards_ec f) \<longrightarrow>
        New_ec env f vars needData =
          (Inl (ShardSizeMismatch fsize (ecShardLength env contentLength (dataShards_ec f))
                  contentLength (dataShards_ec f)),
           [EvQuarantine item]))"
  using assms by (simp add: New_rep_def New_ec_def Let_def)

theorem New_quarantines_size_mismatch_witness:
  "New_rep envAgree (exEngine []) [''device'' \<mapsto> ''sda''] False =
     (Inl (FileSizeMismatch 5 3), [EvQuarantine exRow]) \<and>
   New_ec envAgree (exEcEngine []) [''device'' \<mapsto> ''sda''] False =
     (Inl (FileSizeMismatch 5 3), [EvQuarantine exRow]) \<and>
   New_ec envAgree exEcStableEngine [''device'' \<mapsto> ''sda''] False =
     (Inl (ShardSizeMismatch 5 1 3 2), [EvQuarantine (exRow\<lparr>Nursery := False\<rparr>)])"
proof -
  have env: "Unmarshal envAgree ''{}'' = Some exMeta" "Stat envAgree ''/srv/abc'' = Some 5"
    "ParseInt envAgree (mapIndex exMeta ''Content-Length'') = Some 3"
    "ecShardLength envAgree 3 2 = 1"
    "ObjHash envAgree [''device'' \<mapsto> ''sda''] [] [] = ''abc''"
    by (simp_all add: envAgree_def exEnv_def exMeta_def mapIndex_def)
  have a: "Unmarshal envAgree (Metabytes exRow) = Some exMeta" "\<not> Deletion exRow"
    "Stat envAgree (Path exRow) = Some 5"
    using env by (simp_all add: exRow_def)
  have b: "Unmarshal envAgree (Metabytes (exRow\<lparr>Nursery := False\<rparr>)) = Some exMeta"
    "\<not> Deletion (exRow\<lparr>Nursery := False\<rparr>)"
    "Stat envAgree (Path (exRow\<lparr>Nursery := False\<rparr>)) = Some 5"
    using env by (simp_all add: exRow_def)
  note w1 = New_quarantines_size_mismatch [OF a env(3),
      where re = "exEngine []" and vars = "[''device'' \<mapsto> ''sda'']" and idb = "exHandle []"
        and f = "exEcEngine []" and needData = False]
  note w2 = New_quarantines_size_mismatch [OF b env(3),
      where re = "exEngine []" and vars = "[''device'' \<mapsto> ''sda'']" and idb = exStableHandle
        and f = exEcStableEngine and needData = False]
  have "New_rep envAgree (exEngine []) [''device'' \<mapsto> ''sda''] False =
      (Inl (FileSizeMismatch 5 3), [EvQuarantine exRow])"
    using w1 env by (simp add: exEngine_def exHandle_def roShard_def exRow_def)
  moreover have "New_ec envAgree (exEcEngine []) [''device'' \<mapsto> ''sda''] False =
      (Inl (FileSizeMismatch 5 3), [EvQuarantine exRow])"
    using w1 env by (simp add: exEcEngine_def exHandle_def exRow_def)
  moreover have "New_ec envAgree exEcStableEngine [''device'' \<mapsto> ''sda''] False =
      (Inl (ShardSizeMismatch 5 1 3 2), [EvQuarantine (exRow\<lparr>Nursery := False\<rparr>)])"
    using w2 env by (simp add: exEcStableEngine_def exEcEngine_def exStableHandle_def exHandle_def exRow_def)
  ultimately show ?thesis by simp
qed

section \<open>The merge-join\<close>

lemma truncate_mkRepObject: "IndexDBItem.truncate (mkRepObject re item md txn) = item"
  by (simp add: mkRepObject_def IndexDBItem.truncate_def)

lemma truncate_mkEcObject: "IndexDBItem.truncate (mkEcObject f item md nr txn) = item"
  by (simp add: mkEcObject_def IndexDBItem.truncate_def)

lemma matchRemote_run:
  assumes "sorted (map Hash rs)" "distinct (map Hash rs)"
  shows "matchRemote item rs =
     (\<not> list_ex (\<lambda>r. sameVersion r item) rs, filter (\<lambda>r. Hash item < Hash r) rs)"
  using assms
proof (induction rs)
  case Nil
  then show ?case by simp
next
  case (Cons r rs)
  show ?case
  proof (cases "Hash item < Hash r")
    case True
    with Cons.prems have "\<forall>x\<in>set rs. Hash item < Hash x"
      by auto
    with True show ?thesis
      by (auto simp: list_ex_iff sameVersion_def filter_id_conv)
  next
    case False
    show ?thesis
    proof (cases "Hash r < Hash item")
      case True
      with Cons show ?thesis
        by (auto simp: list_ex_iff sameVersion_def)
    next
      case eq: False
      with False have h: "Hash r = Hash item" by simp
      with Cons.prems have "\<forall>x\<in>set rs. Hash item < Hash x"
        by (auto simp: order_less_le)
      with h show ?thesis
        by (auto simp: list_ex_iff sameVersion_def filter_id_conv)
    qed
  qed
qed

lemma unmatched_rest:
  assumes "Hash item < Hash y"
  shows "unmatched (filter (\<lambda>r. Hash item < Hash r) rs) y = unmatched rs y"
  using assms by (auto simp: unmatched_def list_ex_iff sameVersion_def)

lemma replicateItems_rep_run:
  assumes "sorted (map Hash rs)" "distinct (map Hash rs)"
    and "sorted (map Hash (filter (\<lambda>x. \<not> Nursery x) items))"
    and "distinct (map Hash (filter (\<lambda>x. \<not> Nursery x) items))"
  shows "map IndexDBItem.truncate (replicateItems_rep env re prirep items rs n) =
     List.map_filter (sentItem env) (filter (unmatched rs) items)"
  using assms
proof (induction items arbitrary: rs n)
  case Nil
  then show ?case by (simp add: map_filter_simps)
next
  case (Cons item items)
  show ?case
  proof (cases "Nursery item")
    case True
    with Cons show ?thesis by (simp add: unmatched_def)
  next
    case False
    let ?rs' = "filter (\<lambda>r. Hash item < Hash r) rs"
    have later: "\<forall>y\<in>set items. \<not> Nursery y \<longrightarrow> Hash item < Hash y"
      using Cons.prems(3,4) False by (auto simp: order_less_le)
    have same: "filter (unmatched ?rs') items = filter (unmatched rs) items"
    proof (rule filter_cong [OF refl])
      fix y assume "y \<in> set items"
      with later show "unmatched ?rs' y = unmatched rs y"
      proof (cases "Nursery y")
        case True
        then show ?thesis by (simp add: unmatched_def)
      next
        case False
        with later \<open>y \<in> set items\<close> have "Hash item < Hash y" by blast
        then show ?thesis by (rule unmatched_rest)
      qed
    qed
    have rs': "sorted (map Hash ?rs')" "distinct (map Hash ?rs')"
      using Cons.prems(1,2) by (auto simp: sorted_filter distinct_map_filter)
    have tl: "sorted (map Hash (filter (\<lambda>x. \<not> Nursery x) items))"
      "distinct (map Hash (filter (\<lambda>x. \<not> Nursery x) items))"
      using Cons.prems(3,4) False by auto
    have ih: "\<And>m. map IndexDBItem.truncate (replicateItems_rep env re prirep items ?rs' m) =
        List.map_filter (sentItem env) (filter (unmatched rs) items)"
      using Cons.IH [OF rs' tl] same by simp
    have mr: "matchRemote item rs = (unmatched rs item, ?rs')"
      using matchRemote_run [OF Cons.prems(1,2)] False by (simp add: unmatched_def)
    show ?thesis
    proof (cases "Unmarshal env (Metabytes item)")
      case None
      then have "sentItem env item = None" by (simp add: sentItem_def)
      with None False ih show ?thesis
        by (simp add: mr map_filter_simps)
    next
      case (Some md)
      show ?thesis
      proof (cases "WholeObjectPath env (Hash item) (Shard item) (Timestamp item) (Nursery item)")
        case None
        with Some have "sentItem env item = None" by (simp add: sentItem_def)
        with None Some False ih show ?thesis
          by (simp add: mr map_filter_simps)
      next
        case path: (Some p)
        with Some have "sentItem env item = Some (item\<lparr>Path := p\<rparr>)" by (simp add: sentItem_def)
        with path Some False ih show ?thesis
          by (simp add: mr map_filter_simps truncate_mkRepObject)
      qed
    qed
  qed
qed

lemma replicateItems_ec_run:
  assumes "sorted (map Hash rs)" "distinct (map Hash rs)"
    and "sorted (map Hash (filter (\<lambda>x. \<not> Nursery x) items))"
    and "distinct (map Hash (filter (\<lambda>x. \<not> Nursery x) items))"
  shows "map IndexDBItem.truncate (replicateItems_ec env f prirep items rs n) =
     List.map_filter (sentItem env) (filter (unmatched rs) items)"
  using assms
proof (induction items arbitrary: rs n)
  case Nil
  then show ?case by (simp add: map_filter_simps)
next
  case (Cons item items)
  show ?case
  proof (cases "Nursery item")
    case True
    with Cons show ?thesis by (simp add: unmatched_def)
  next
    case False
    let ?rs' = "filter (\<lambda>r. Hash item < Hash r) rs"
    have later: "\<forall>y\<in>set items. \<not> Nursery y \<longrightarrow> Hash item < Hash y"
      using Cons.prems(3,4) False by (auto simp: order_less_le)
    have same: "filter (unmatched ?rs') items = filter (unmatched rs) items"
    proof (rule filter_cong [OF refl])
      fix y assume "y \<in> set items"
      with later show "unmatched ?rs' y = unmatched rs y"
      proof (cases "Nursery y")
        case True
        then show ?thesis by (simp add: unmatched_def)
      next
        case False
        with later \<open>y \<in> set items\<close> have "Hash item < Hash y" by blast
        then show ?thesis by (rule unmatched_rest)
      qed
    qed
    have rs': "sorted (map Hash ?rs')" "distinct (map Hash ?rs')"
      using Cons.prems(1,2) by (auto simp: sorted_filter distinct_map_filter)
    have tl: "sorted (map Hash (filter (\<lambda>x. \<not> Nursery x) items))"
      "distinct (map Hash (filter (\<lambda>x. \<not> Nursery x) items))"
      using Cons.prems(3,4) False by auto
    have ih: "\<And>m. map IndexDBItem.truncate (replicateItems_ec env f prirep items ?rs' m) =
        List.map_filter (sentItem env) (filter (unmatched rs) items)"
      using Cons.IH [OF rs' tl] same by simp
    have mr: "matchRemote item rs = (unmatched rs item, ?rs')"
      using matchRemote_run [OF Cons.prems(1,2)] False by (simp add: unmatched_def)
    show ?thesis
    proof (cases "unmatched rs item")
      case False
      with \<open>\<not> Nursery item\<close> ih show ?thesis
        by (simp add: mr)
    next
      case True
      show ?thesis
    proof (cases "Unmarshal env (Metabytes item)")
      case None
      then have "sentItem env item = None" by (simp add: sentItem_def)
      with None False True ih show ?thesis
        by (simp add: mr map_filter_simps)
    next
      case (Some md)
      show ?thesis
      proof (cases "WholeObjectPath env (Hash item) (Shard item) (Timestamp item) (Nursery item)")
        case None
        with Some have "sentItem env item = None" by (simp add: sentItem_def)
        with None Some False ih show ?thesis
          by (simp add: mr map_filter_simps)
      next
        case path: (Some p)
        with Some have "sentItem env item = Some (item\<lparr>Path := p\<rparr>)" by (simp add: sentItem_def)
        with path Some False True ih show ?thesis
          by (simp add: mr map_filter_simps truncate_mkEcObject)
      qed
    qed
    qed
  qed
qed

lemma replicateItems_rep_not_nursery:
  "\<forall>obj\<in>set (replicateItems_rep env re prirep items rs n). \<not> Nursery obj"
proof (induction items arbitrary: rs n)
  case Nil
  then show ?case by simp
next
  case (Cons item items)
  then show ?case
    by (cases "matchRemote item rs") (auto simp: mkRepObject_def split: option.splits)
qed

lemma replicateItems_ec_not_nursery:
  "\<forall>obj\<in>set (replicateItems_ec env f prirep items rs n). \<not> Nursery obj"
proof (induction items arbitrary: rs n)
  case Nil
  then show ?case by simp
next
  case (Cons item items)
  then show ?case
    by (cases "matchRemote item rs") (auto simp: mkEcObject_def split: option.splits)
qed

lemmas row_defs = rowA_def rowA1_def rowB_def rowN_def remoteB_def remoteTomb_def exRow_def

lemma ex_fetch_rep:
  "items \<noteq> [] \<Longrightarrow>
   fst (snd (GetObjectsToReplicate_rep (exEnv okReply remote) (exEngine items) exJob)) =
     replicateItems_rep (exEnv okReply remote) (exEngine items) exJob items remote 0"
  by (simp add: GetObjectsToReplicate_rep_def exEngine_def exHandle_def exEnv_def okReply_def
      remoteListing_def partitionRequest_def)

lemma ex_fetch_ec:
  "items \<noteq> [] \<Longrightarrow>
   fst (snd (GetObjectsToReplicate_ec (exEnv okReply remote) (exEcEngine items) exJob)) =
     replicateItems_ec (exEnv okReply remote) (exEcEngine items) exJob items remote 0"
  by (simp add: GetObjectsToReplicate_ec_def exEcEngine_def exHandle_def exEnv_def okReply_def
      remoteListing_def partitionRequest_def)

lemma ex_env_build:
  "Unmarshal (exEnv okReply remote) ''{}'' = Some exMeta"
  "WholeObjectPath (exEnv okReply remote) h s t n = Some (''/srv/'' @ h)"
  by (simp_all add: exEnv_def)

text \<open>
  C5, as the code has it. Let the local listing be sorted by hash with no hash repeated
  among its rows outside the nursery, and the remote listing be sorted by hash with no
  hash repeated. Then both engines send exactly the local rows outside the nursery that
  have no remote row of the same hash, timestamp, nursery flag and deletion flag, each
  with its path, leaving out a row whose metadata does not decode or whose path cannot
  be built; and no object sent has the nursery flag set.
\<close>

theorem GetObjectsToReplicate_emits_unmatched:
  assumes "sorted (map Hash items)" "distinct (map Hash (filter (\<lambda>x. \<not> Nursery x) items))"
    and "sorted (map Hash remoteItems)" "distinct (map Hash remoteItems)"
    and "items \<noteq> []"
  shows "(getDB_re re (Device (FromDevice prirep)) = Inr idb \<and>
      List_idb idb (fst (RingPartRange idb (sint (Partition prirep))))
        (snd (RingPartRange idb (sint (Partition prirep)))) [] 0 = (items, err) \<and>
      NewRequestOk env ''GET'' (partitionURL ''rep-partition'' prirep) \<and>
      Do env (partitionRequest ''rep-partition'' prirep) = Some resp \<and>
      remoteListing env resp = remoteItems \<longrightarrow>
        map IndexDBItem.truncate (fst (snd (GetObjectsToReplicate_rep env re prirep))) =
          List.map_filter (sentItem env) (filter (unmatched remoteItems) items) \<and>
        (\<forall>obj\<in>set (fst (snd (GetObjectsToReplicate_rep env re prirep))). \<not> Nursery obj)) \<and>
     (getDB_ec f (Device (FromDevice prirep)) = Inr idb \<and>
      List_idb idb (fst (RingPartRange idb (sint (Partition prirep))))
        (snd (RingPartRange idb (sint (Partition prirep)))) [] 0 = (items, err) \<and>
      NewRequestOk env ''GET'' (partitionURL ''ec-partition'' prirep) \<and>
      Do env (partitionRequest ''ec-partition'' prirep) = Some resp \<and>
      remoteListing env resp = remoteItems \<longrightarrow>
        map IndexDBItem.truncate (fst (snd (GetObjectsToReplicate_ec env f prirep))) =
          List.map_filter (sentItem env) (filter (unmatched remoteItems) items) \<and>
        (\<forall>obj\<in>set (fst (snd (GetObjectsToReplicate_ec env f prirep))). \<not> Nursery obj))"
proof -
  have nn: "sorted (map Hash (filter (\<lambda>x. \<not> Nursery x) items))"
    using assms(1) by (simp add: sorted_filter)
  note rep = replicateItems_rep_run [OF assms(3,4) nn assms(2)]
  note ec = replicateItems_ec_run [OF assms(3,4) nn assms(2)]
  show ?thesis
    using assms(5) rep ec replicateItems_rep_not_nursery replicateItems_ec_not_nursery
    by (auto simp: GetObjectsToReplicate_rep_def GetObjectsToReplicate_ec_def split: prod.splits)
qed

theorem GetObjectsToReplicate_emits_unmatched_witness:
  "map IndexDBItem.truncate
     (fst (snd (GetObjectsToReplicate_rep (exEnv okReply [rowA, remoteB])
        (exEngine [rowA, rowB, rowN]) exJob))) = [rowB\<lparr>Path := ''/srv/abd''\<rparr>] \<and>
   map IndexDBItem.truncate
     (fst (snd (GetObjectsToReplicate_ec (exEnv okReply [rowA, remoteB])
        (exEcEngine [rowA, rowB, rowN]) exJob))) = [rowB\<lparr>Path := ''/srv/abd''\<rparr>]"
proof -
  let ?env = "exEnv okReply [rowA, remoteB]"
  have h: "sorted (map Hash [rowA, rowB, rowN])"
    "distinct (map Hash (filter (\<lambda>x. \<not> Nursery x) [rowA, rowB, rowN]))"
    "sorted (map Hash [rowA, remoteB])" "distinct (map Hash [rowA, remoteB])"
    "[rowA, rowB, rowN] \<noteq> []"
    by (simp_all add: row_defs)
  have fetch: "getDB_re (exEngine [rowA, rowB, rowN]) (Device (FromDevice exJob)) =
      Inr (exHandle [rowA, rowB, rowN])"
    "getDB_ec (exEcEngine [rowA, rowB, rowN]) (Device (FromDevice exJob)) =
      Inr (exHandle [rowA, rowB, rowN])"
    "List_idb (exHandle [rowA, rowB, rowN]) a b [] 0 = ([rowA, rowB, rowN], None)"
    "NewRequestOk ?env ''GET'' u"
    "Do ?env (partitionRequest route exJob) =
       Some \<lparr>StatusCode = 201, RespHeader = Map.empty, Body = Some ''[]''\<rparr>"
    "remoteListing ?env \<lparr>StatusCode = 201, RespHeader = Map.empty, Body = Some ''[]''\<rparr> =
       [rowA, remoteB]"
    for a b u route
    by (simp_all add: exEngine_def exEcEngine_def exHandle_def exEnv_def okReply_def
        remoteListing_def partitionRequest_def)
  have out: "List.map_filter (sentItem ?env) (filter (unmatched [rowA, remoteB]) [rowA, rowB, rowN]) =
      [rowB\<lparr>Path := ''/srv/abd''\<rparr>]"
    by (simp add: unmatched_def sameVersion_def sentItem_def map_filter_simps ex_env_build row_defs)
  note w = GetObjectsToReplicate_emits_unmatched [OF h,
      where re = "exEngine [rowA, rowB, rowN]" and f = "exEcEngine [rowA, rowB, rowN]"
        and prirep = exJob and idb = "exHandle [rowA, rowB, rowN]" and err = None and env = ?env
        and resp = "\<lparr>StatusCode = 201, RespHeader = Map.empty, Body = Some ''[]''\<rparr>"]
  show ?thesis
    using w fetch out by simp
qed

text \<open>
  C5 as stated fails when a hash occurs twice in a sorted listing. The merge compares a
  local row with the first remote row of its hash only, and a remote row is used up by
  the first local row of its hash: the replication engine sends a row whose equal is the
  second remote row of that hash (after a tombstone), and the erasure-code engine sends
  the second local shard of a hash although the remote row equals it in all four fields.
\<close>

theorem GetObjectsToReplicate_duplicate_hash_counterexample:
  "sorted (map Hash [rowA]) \<and> sorted (map Hash [remoteTomb, rowA]) \<and>
   \<not> Nursery rowA \<and> sameVersion rowA rowA \<and>
   map IndexDBItem.truncate
     (fst (snd (GetObjectsToReplicate_rep (exEnv okReply [remoteTomb, rowA]) (exEngine [rowA]) exJob))) =
     [rowA\<lparr>Path := ''/srv/abc''\<rparr>] \<and>
   sorted (map Hash [rowA, rowA1]) \<and> sorted (map Hash [rowA]) \<and>
   \<not> Nursery rowA1 \<and> sameVersion rowA rowA1 \<and>
   map IndexDBItem.truncate
     (fst (snd (GetObjectsToReplicate_ec (exEnv okReply [rowA]) (exEcEngine [rowA, rowA1]) exJob))) =
     [rowA1\<lparr>Path := ''/srv/abc''\<rparr>]"
proof -
  have "replicateItems_rep (exEnv okReply [remoteTomb, rowA]) (exEngine [rowA]) exJob [rowA]
      [remoteTomb, rowA] 0 =
      [mkRepObject (exEngine [rowA]) (rowA\<lparr>Path := ''/srv/abc''\<rparr>) exMeta
         (UUID (exEnv okReply [remoteTomb, rowA]) 0 @ ''-'' @ Device (FromDevice exJob))]"
    by (simp add: ex_env_build sameVersion_def row_defs)
  moreover have "replicateItems_ec (exEnv okReply [rowA]) (exEcEngine [rowA, rowA1]) exJob
      [rowA, rowA1] [rowA] 0 =
      [mkEcObject (exEcEngine [rowA, rowA1]) (rowA1\<lparr>Path := ''/srv/abc''\<rparr>) exMeta 0
         (UUID (exEnv okReply [rowA]) 0 @ ''-'' @ Device (FromDevice exJob))]"
    by (simp add: ex_env_build sameVersion_def row_defs)
  ultimately show ?thesis
    by (simp add: ex_fetch_rep ex_fetch_ec truncate_mkRepObject truncate_mkEcObject
        sameVersion_def row_defs)
qed

section \<open>The planner\<close>

lemma word_next_greater: "(p::64 word) + 1 \<noteq> 0 \<Longrightarrow> p < p + 1"
  using add_neg_numeral_special(8) inc_less_eq_triv_imp linorder_not_less by blast

lemma word_less_next_nonzero: "(p::64 word) < p0 \<Longrightarrow> p + 1 \<noteq> 0"
  by (metis eq_neg_iff_add_eq_0 word_order.extremum_strict)

lemma word_le_one: "((q::64 word) \<le> 1) = (q = 0 \<or> q = 1)"
  by (metis inc_le word_le_0_iff order_le_less word_less_1 zero_neq_one add_0 order_refl word_zero_le)

lemma slotJobs_same: "slotJobs part pol devs devs = []"
  by (auto simp: slotJobs_def filter_empty_conv set_zip)

lemma changed_slot:
  "i < length devs \<Longrightarrow> d \<noteq> devs ! i \<Longrightarrow>
   filter (\<lambda>(olddev, newdev). olddev \<noteq> newdev) (zip devs (devs[i := d])) = [(devs ! i, d)]"
proof (induction devs arbitrary: i)
  case Nil
  then show ?case by simp
next
  case (Cons x xs)
  have same: "filter (\<lambda>(olddev, newdev). olddev \<noteq> newdev) (zip xs xs) = []"
    by (auto simp: filter_empty_conv set_zip)
  show ?case
  proof (cases i)
    case 0
    with Cons.prems same show ?thesis by simp
  next
    case (Suc j)
    with Cons show ?thesis by simp
  qed
qed

lemma slotJobs_one:
  "i < length devs \<Longrightarrow> d \<noteq> devs ! i \<Longrightarrow>
   slotJobs part pol devs (devs[i := d]) =
     [\<lparr>Partition = part, FromDevice = devs ! i, ToDevice = d, Policy = pol\<rparr>]"
  by (simp add: slotJobs_def changed_slot)

lemma getPartMoveJobs_from_agree:
  "\<forall>q. part \<le> q \<longrightarrow> GetNodes newRing q = GetNodes oldRing q \<Longrightarrow>
   getPartMoveJobs_from oldRing newRing excluded pol part = []"
proof (induction oldRing newRing excluded pol part rule: getPartMoveJobs_from.induct)
  case (1 oldRing newRing excluded pol part)
  show ?case
  proof (cases "GetNodes oldRing part = [] \<or> GetNodes newRing part = []")
    case True
    then show ?thesis by (subst getPartMoveJobs_from.simps) simp
  next
    case False
    have here: "GetNodes newRing part = GetNodes oldRing part"
      using "1.prems" by simp
    have rest: "part + 1 \<noteq> 0 \<Longrightarrow> getPartMoveJobs_from oldRing newRing excluded pol (part + 1) = []"
    proof -
      assume nz: "part + 1 \<noteq> 0"
      then have "part < part + 1" by (rule word_next_greater)
      then have "\<forall>q. part + 1 \<le> q \<longrightarrow> GetNodes newRing q = GetNodes oldRing q"
        using "1.prems" by auto
      with "1.IH" False nz show ?thesis by blast
    qed
    show ?thesis
      by (subst getPartMoveJobs_from.simps) (use here rest in \<open>simp add: slotJobs_same\<close>)
  qed
qed

lemma getPartMoveJobs_from_one_change:
  assumes "i < length (GetNodes oldRing p0)" "d \<noteq> GetNodes oldRing p0 ! i"
    and "\<forall>q. part \<le> q \<and> q \<le> p0 \<longrightarrow> GetNodes oldRing q \<noteq> []"
    and "part \<le> p0"
    and "newRing = oldRing\<lparr>GetNodes := (GetNodes oldRing)(p0 := (GetNodes oldRing p0)[i := d])\<rparr>"
  shows "getPartMoveJobs_from oldRing newRing excluded pol part =
     (if p0 \<in> set excluded then []
      else [\<lparr>Partition = p0, FromDevice = GetNodes oldRing p0 ! i, ToDevice = d, Policy = pol\<rparr>])"
  using assms
proof (induction oldRing newRing excluded pol part rule: getPartMoveJobs_from.induct)
  case (1 oldRing newRing excluded pol part)
  have new: "GetNodes newRing = (GetNodes oldRing)(p0 := (GetNodes oldRing p0)[i := d])"
    by (simp add: "1.prems"(5) fun_upd_def)
  have nonempty: "GetNodes oldRing part \<noteq> []"
    using "1.prems"(3,4) by simp
  show ?case
  proof (cases "part = p0")
    case True
    have after: "part + 1 \<noteq> 0 \<Longrightarrow> getPartMoveJobs_from oldRing newRing excluded pol (part + 1) = []"
    proof -
      assume "part + 1 \<noteq> 0"
      then have "part < part + 1" by (rule word_next_greater)
      then have "\<forall>q. part + 1 \<le> q \<longrightarrow> GetNodes newRing q = GetNodes oldRing q"
        using new True by auto
      then show ?thesis by (rule getPartMoveJobs_from_agree)
    qed
    show ?thesis
      by (subst getPartMoveJobs_from.simps)
        (use True new nonempty after "1.prems"(1,2) in \<open>simp add: slotJobs_one\<close>)
  next
    case False
    with "1.prems"(4) have less: "part < p0" by simp
    then have nz: "part + 1 \<noteq> 0" by (rule word_less_next_nonzero)
    from less have le: "part + 1 \<le> p0" by (rule inc_le)
    have here: "GetNodes newRing part = GetNodes oldRing part"
      using new False by simp
    from nz have "part < part + 1" by (rule word_next_greater)
    then have "\<forall>q. part + 1 \<le> q \<and> q \<le> p0 \<longrightarrow> GetNodes oldRing q \<noteq> []"
      using "1.prems"(3) by auto
    then have "getPartMoveJobs_from oldRing newRing excluded pol (part + 1) =
       (if p0 \<in> set excluded then []
        else [\<lparr>Partition = p0, FromDevice = GetNodes oldRing p0 ! i, ToDevice = d, Policy = pol\<rparr>])"
      using "1.IH" nonempty here nz le "1.prems"(1,2,5) by simp
    then show ?thesis
      by (subst getPartMoveJobs_from.simps) (use here nonempty nz in \<open>simp add: slotJobs_same\<close>)
  qed
qed

lemma getPartMoveJobs_from_excluded:
  "\<forall>job\<in>set (getPartMoveJobs_from oldRing newRing excluded pol part). Partition job \<notin> set excluded"
proof (induction oldRing newRing excluded pol part rule: getPartMoveJobs_from.induct)
  case (1 oldRing newRing excluded pol part)
  have slot: "\<forall>job\<in>set (slotJobs part pol (GetNodes oldRing part) (GetNodes newRing part)).
      Partition job = part"
    by (auto simp: slotJobs_def)
  show ?case
    by (subst getPartMoveJobs_from.simps) (use "1.IH" slot in auto)
qed

text \<open>The planner on the rings of the repository's test gives the two jobs the test expects.\<close>

lemma getPartMoveJobs_test:
  "getPartMoveJobs (testRing oldMapping) (testRing newMapping) [] 3 =
     [\<lparr>Partition = 0, FromDevice = testDevice 1, ToDevice = testDevice 6, Policy = 3\<rparr>,
      \<lparr>Partition = 1, FromDevice = testDevice 10, ToDevice = testDevice 11, Policy = 3\<rparr>]"
  by (simp add: getPartMoveJobs_def getPartMoveJobs_from.simps slotJobs_def testRing_def
      oldMapping_def newMapping_def testDevice_def)

text \<open>
  C8. \<^verbatim>\<open>getPartMoveJobs\<close> is a function of its arguments. On identical rings it returns
  no job; when exactly one slot of one partition is assigned another device, it returns
  exactly one job, naming that partition, the old device as \<^verbatim>\<open>FromDevice\<close> and the new
  device as \<^verbatim>\<open>ToDevice\<close>, unless the partition is excluded, and then none; and no job
  it returns is for an excluded partition.
\<close>

theorem getPartMoveJobs_diff:
  assumes "i < length (GetNodes oldRing p0)" "d \<noteq> GetNodes oldRing p0 ! i"
    and "\<forall>q. q \<le> p0 \<longrightarrow> GetNodes oldRing q \<noteq> []"
  shows "getPartMoveJobs oldRing oldRing excluded pol = [] \<and>
     getPartMoveJobs oldRing
       (oldRing\<lparr>GetNodes := (GetNodes oldRing)(p0 := (GetNodes oldRing p0)[i := d])\<rparr>) excluded pol =
       (if p0 \<in> set excluded then []
        else [\<lparr>Partition = p0, FromDevice = GetNodes oldRing p0 ! i, ToDevice = d, Policy = pol\<rparr>]) \<and>
     (\<forall>job\<in>set (getPartMoveJobs oldRing newRing excluded pol). Partition job \<notin> set excluded)"
  unfolding getPartMoveJobs_def
  using getPartMoveJobs_from_agree [of 0 oldRing oldRing excluded pol]
    getPartMoveJobs_from_one_change [OF assms(1,2), of 0 _ excluded pol] assms(3)
    getPartMoveJobs_from_excluded [of oldRing newRing excluded pol 0]
  by simp

theorem getPartMoveJobs_diff_witness:
  "getPartMoveJobs (testRing oldMapping) (testRing oldMapping) [] 3 = [] \<and>
   getPartMoveJobs (testRing oldMapping)
     ((testRing oldMapping)\<lparr>GetNodes := (GetNodes (testRing oldMapping))
        (1 := (GetNodes (testRing oldMapping) 1)[4 := testDevice 11])\<rparr>) [] 3 =
     [\<lparr>Partition = 1, FromDevice = testDevice 10, ToDevice = testDevice 11, Policy = 3\<rparr>] \<and>
   getPartMoveJobs (testRing oldMapping)
     ((testRing oldMapping)\<lparr>GetNodes := (GetNodes (testRing oldMapping))
        (1 := (GetNodes (testRing oldMapping) 1)[4 := testDevice 11])\<rparr>) [1] 3 = []"
proof -
  have nodes: "GetNodes (testRing oldMapping) 1 = map testDevice [6, 7, 8, 9, 10]"
    by (simp add: testRing_def oldMapping_def)
  have h: "4 < length (GetNodes (testRing oldMapping) 1)"
    "testDevice 11 \<noteq> GetNodes (testRing oldMapping) 1 ! 4"
    "\<forall>q. q \<le> 1 \<longrightarrow> GetNodes (testRing oldMapping) q \<noteq> []"
    unfolding nodes by (auto simp: testDevice_def testRing_def oldMapping_def word_le_one)
  have slot: "GetNodes (testRing oldMapping) 1 ! 4 = testDevice 10"
    unfolding nodes by simp
  note w1 = getPartMoveJobs_diff [OF h, where excluded = "[]" and pol = 3]
  note w2 = getPartMoveJobs_diff [OF h, where excluded = "[1]" and pol = 3]
  show ?thesis
    using w1 w2 slot by simp
qed

section \<open>getObjectsToStabilize\<close>

lemma stabilizeItems_rep_order:
  "map IndexDBItem.truncate (stabilizeItems_rep env re device items n) =
     filter (\<lambda>item. Unmarshal env (Metabytes item) \<noteq> None) items"
  by (induction items arbitrary: n) (auto simp: truncate_mkRepObject split: option.splits)

lemma stabilizeItems_ec_order:
  "map IndexDBItem.truncate (stabilizeItems_ec env f device items n) =
     filter (\<lambda>item. Unmarshal env (Metabytes item) \<noteq> None) items"
  by (induction items arbitrary: n) (auto simp: truncate_mkEcObject split: option.splits)

lemma getObjectsToStabilize_rep_listing_order:
  "map IndexDBItem.truncate (fst (getObjectsToStabilize_rep env re device)) =
     (case getDB_re re (Device device) of
        Inl err \<Rightarrow> []
      | Inr idb \<Rightarrow>
          (case ListObjectsToStabilize idb of
             Inl err \<Rightarrow> []
           | Inr idbItems \<Rightarrow> filter (\<lambda>item. Unmarshal env (Metabytes item) \<noteq> None) idbItems))"
  by (simp add: getObjectsToStabilize_rep_def stabilizeItems_rep_order split: sum.splits)

lemma shuffle_loop_length: "length (shuffle_loop rnd i k objs) = length objs"
  by (induction i arbitrary: k objs) (simp_all add: Let_def)

lemma shuffle_loop_set:
  "i < length objs \<Longrightarrow> set (shuffle_loop rnd i k objs) = set objs"
proof (induction i arbitrary: k objs)
  case 0
  then show ?case by simp
next
  case (Suc i)
  let ?j = "rnd k mod (Suc i + 1)"
  let ?swapped = "objs[?j := objs ! Suc i, Suc i := objs ! ?j]"
  have j: "?j < length objs"
    using Suc.prems mod_less_divisor [of "Suc i + 1" "rnd k"] by linarith
  have "set ?swapped = set objs"
    using j Suc.prems by (simp add: set_swap)
  moreover have "i < length ?swapped" using Suc.prems by simp
  ultimately show ?case
    using Suc.IH [of ?swapped "Suc k"] by (simp add: Let_def)
qed

text \<open>
  C9 on the code. Both engines expire the tombstones and then list the candidates. The
  erasure-code engine shuffles them before sending: with three candidates in hash order
  and every draw 0 it sends the second, the third, the first. The replication engine has
  no shuffle: whatever the random source, it sends the candidates in the order of the
  listing (\<open>getObjectsToStabilize_rep_listing_order\<close>), here in hash order.
\<close>

theorem getObjectsToStabilize_rep_not_shuffled:
  "map Hash (fst (getObjectsToStabilize_rep envAgree (exEngine [exRow, rowM, rowN]) dev1)) =
     [''abc'', ''abd'', ''abe''] \<and>
   snd (getObjectsToStabilize_rep envAgree (exEngine [exRow, rowM, rowN]) dev1) =
     [EvExpireObjects, EvListObjectsToStabilize] \<and>
   map Hash (fst (getObjectsToStabilize_ec envAgree (exEcEngine [exRow, rowM, rowN]) dev1)) =
     [''abd'', ''abe'', ''abc'']"
  by (simp add: getObjectsToStabilize_rep_def getObjectsToStabilize_ec_def exEngine_def
      exEcEngine_def exHandle_def envAgree_def exEnv_def shuffle_def numeral_2_eq_2 Let_def
      mkRepObject_def mkEcObject_def rowM_def rowN_def exRow_def dev1_def)

end
